theory Spec2Isabelle
  imports Main "HOL-Library.Word" "HOL-Library.Signed_Division" "HOL-Library.Log_Nat"
begin

section \<open>Strings: \<open>strings.HasPrefix\<close>, \<open>strings.Contains\<close>, \<open>%d\<close>\<close>

text \<open>
  Go strings are byte sequences, as \<open>string\<close> is here. \<open>strings.Contains(s, substr)\<close>
  reports whether \<open>substr\<close> occurs in \<open>s\<close> as a contiguous block; the empty
  string occurs in every string.
\<close>

fun HasPrefix :: "string \<Rightarrow> string \<Rightarrow> bool" where
  "HasPrefix s [] = True"
| "HasPrefix [] (p # ps) = False"
| "HasPrefix (c # cs) (p # ps) = (c = p \<and> HasPrefix cs ps)"

fun Contains :: "string \<Rightarrow> string \<Rightarrow> bool" where
  "Contains [] substr = (substr = [])"
| "Contains (c # cs) substr = (HasPrefix (c # cs) substr \<or> Contains cs substr)"

text \<open>\<open>fmt.Sprintf("%d", n)\<close>: the decimal digits of \<open>n\<close>, with a minus sign below zero.\<close>

definition digit :: "nat \<Rightarrow> char" where
  "digit d = ''0123456789'' ! d"

fun fmt_nat :: "nat \<Rightarrow> string" where
  "fmt_nat n = (if n < 10 then [digit n] else fmt_nat (n div 10) @ [digit (n mod 10)])"

declare fmt_nat.simps [simp del]

definition fmt_d :: "int \<Rightarrow> string" where
  "fmt_d n = (if n < 0 then CHR ''-'' # fmt_nat (nat (- n)) else fmt_nat (nat n))"

section \<open>Time: \<open>time.Time\<close>, \<open>time.Duration\<close> and \<open>float64\<close>\<close>

text \<open>
  A \<open>time.Duration\<close> is an \<open>int64\<close> count of nanoseconds. A \<open>time.Time\<close> is modelled as
  the instant it denotes, in nanoseconds since the zero time (January 1, year 1, 00:00:00
  UTC); the location and the monotonic reading are left out. \<open>t.Sub(u)\<close> is the difference
  \<open>t - u\<close>, saturated at the largest and the smallest \<open>Duration\<close>.
\<close>

type_synonym Time = int
type_synonym Duration = int

definition Second :: Duration where "Second = 1000000000"
definition Minute :: Duration where "Minute = 60 * Second"
definition Hour :: Duration where "Hour = 60 * Minute"

definition minDuration :: Duration where "minDuration = - (2 ^ 63)"
definition maxDuration :: Duration where "maxDuration = 2 ^ 63 - 1"

definition IsZero :: "Time \<Rightarrow> bool" where
  "IsZero t = (t = 0)"

definition Sub :: "Time \<Rightarrow> Time \<Rightarrow> Duration" where
  "Sub t u = (let d = t - u in
     if d < minDuration then minDuration else if maxDuration < d then maxDuration else d)"

text \<open>
  \<open>Seconds\<close>, \<open>Minutes\<close> and \<open>Hours\<close> of a \<open>Duration\<close> return a \<open>float64\<close>. A finite
  \<open>float64\<close> is a rational number, so the model computes in \<open>rat\<close> and rounds the result
  of every conversion and operation to the nearest number with a 53-bit significand, ties
  to even. Every value that occurs below is zero or lies between \<open>2^-43\<close> and \<open>2^63\<close> in
  magnitude, far inside the normal range of the format, so the exponent is left unbounded.
\<close>

definition pow2 :: "int \<Rightarrow> rat" where
  "pow2 e = (if 0 \<le> e then 2 ^ nat e else 1 / 2 ^ nat (- e))"

definition binexp :: "rat \<Rightarrow> int" where
  \<comment> \<open>for \<open>x > 0\<close>: the exponent \<open>E\<close> with \<open>2^E \<le> x < 2^(E+1)\<close>\<close>
  "binexp x = (case quotient_of x of (p, q) \<Rightarrow>
     (let k = bitlen p - bitlen q
      in if pow2 k \<le> x then k else k - 1))"

definition round_even :: "rat \<Rightarrow> int" where
  "round_even y = (let n = \<lfloor>y\<rfloor>; r = y - of_int n in
     if r < 1 / 2 then n else if 1 / 2 < r then n + 1 else if even n then n else n + 1)"

definition float64 :: "rat \<Rightarrow> rat" where
  "float64 x = (if x = 0 then 0 else
     (let e = binexp \<bar>x\<bar> - 52
      in sgn x * of_int (round_even (\<bar>x\<bar> / pow2 e)) * pow2 e))"

text \<open>Go's \<open>/\<close> and \<open>%\<close> on integers truncate toward zero: \<open>sdiv\<close> and \<open>smod\<close>.\<close>

definition Seconds :: "Duration \<Rightarrow> rat" where
  "Seconds d = (let sec = d sdiv Second; nsec = d smod Second in
     float64 (float64 (of_int sec) + float64 (float64 (of_int nsec) / 1000000000)))"

definition Minutes :: "Duration \<Rightarrow> rat" where
  "Minutes d = (let min = d sdiv Minute; nsec = d smod Minute in
     float64 (float64 (of_int min) + float64 (float64 (of_int nsec) / 60000000000)))"

definition Hours :: "Duration \<Rightarrow> rat" where
  "Hours d = (let hour = d sdiv Hour; nsec = d smod Hour in
     float64 (float64 (of_int hour) + float64 (float64 (of_int nsec) / 3600000000000)))"

text \<open>
  The conversion \<open>int(f)\<close> of a \<open>float64\<close> drops the fraction (truncates toward zero).
  \<open>int\<close> and \<open>uint\<close> have 64 bits, which holds every count of units of a \<open>Duration\<close>.
\<close>

definition to_int :: "rat \<Rightarrow> int" where
  "to_int f = (if 0 \<le> f then \<lfloor>f\<rfloor> else \<lceil>f\<rceil>)"

section \<open>The scheduler's jobs\<close>

text \<open>
  \<open>gocron.Job\<close> is an interface of the external scheduler. A job handle is modelled by
  what its methods return; \<open>NextRun\<close>, \<open>LastRun\<close> and \<open>NextRuns\<close> return a value and an
  error, and Go's \<open>error\<close> is modelled by its text. A \<open>uuid.UUID\<close> is 16 bytes.
\<close>

type_synonym UUID = "8 word list"
type_synonym error = string

record Job =
  JobID :: UUID
  JobName :: string
  JobTags :: "string list"
  JobNextRun :: "Time \<times> error option"
  JobLastRun :: "Time \<times> error option"
  JobNextRuns :: "nat \<Rightarrow> Time list \<times> error option"

section \<open>The schedule descriptor\<close>

definition inferSchedule :: "Job \<Rightarrow> Time list \<Rightarrow> string \<times> string" where
  "inferSchedule job nextRuns =
    (let name = JobName job;
         named = 0 < length name;
         marked = named \<and> (Contains name ''every'' \<or> Contains name ''interval'')
     in
     if marked \<and> (Contains name ''10s'' \<or> Contains name ''10-s'') then
       (''Every 10 seconds'', ''Duration: 10s'')
     else if marked \<and> Contains name ''5s'' then
       (''Every 5 seconds'', ''Duration: 5s'')
     else if marked \<and> Contains name ''minute'' then
       (''Every minute'', ''Duration: 1m'')
     else if named \<and> Contains name ''cron'' then
       (''Cron schedule'', ''Cron: * * * * *'')
     else if named \<and> Contains name ''daily'' then
       (''Daily'', ''Daily schedule'')
     else if named \<and> Contains name ''weekly'' then
       (''Weekly'', ''Weekly: Mon, Wed, Fri'')
     else if named \<and> Contains name ''random'' then
       (''Random interval'', ''Random: 5-15s'')
     else if named \<and> Contains name ''singleton'' then
       (''Every 5 seconds (singleton)'', ''Duration: 5s, Mode: Singleton'')
     else if named \<and> Contains name ''limited'' then
       (''Every 7 seconds (limited)'', ''Duration: 7s, Max runs: 3'')
     else if named \<and> Contains name ''parameter'' then
       (''Every 12 seconds'', ''Duration: 12s'')
     else if named \<and> Contains name ''context'' then
       (''Every 8 seconds'', ''Duration: 8s'')
     else if named \<and> (Contains name ''one-time'' \<or> Contains name ''onetime'') then
       (''One time only'', ''OneTime job'')
     else
       (case nextRuns of
          t0 # t1 # _ \<Rightarrow>
            (let interval = Sub t1 t0 in
             if interval < Minute then
               (let seconds = to_int (Seconds interval) in
                (''Every '' @ fmt_d seconds @ '' seconds'', ''Duration: '' @ fmt_d seconds @ ''s''))
             else if interval < Hour then
               (let minutes = to_int (Minutes interval) in
                (''Every '' @ fmt_d minutes @ '' minutes'', ''Duration: '' @ fmt_d minutes @ ''m''))
             else if interval < 24 * Hour then
               (let hours = to_int (Hours interval) in
                (''Every '' @ fmt_d hours @ '' hours'', ''Duration: '' @ fmt_d hours @ ''h''))
             else
               (let days = to_int (float64 (Hours interval / 24)) in
                (''Every '' @ fmt_d days @ '' days'', ''Duration: '' @ fmt_d days @ ''d'')))
        | _ \<Rightarrow> (''Scheduled'', ''Custom schedule'')))"

section \<open>Wire records and responses\<close>

record JobData =
  ID :: string
  Name :: string
  Tags :: "string list"
  NextRun :: string
  LastRun :: string
  NextRuns :: "string list"
  Schedule :: string
  ScheduleDetail :: string

text \<open>
  The fields \<open>Name\<close> and \<open>Tags\<close> of \<open>CreateJobRequest\<close> carry the suffix \<open>_req\<close>, since
  \<open>JobData\<close> has fields of the same names. \<open>Interval\<close> is an \<open>int64\<close>.
\<close>

record CreateJobRequest =
  Name_req :: string
  Type :: string
  Interval :: "64 word"
  CronExpression :: string
  AtTime :: string
  Tags_req :: "string list"

text \<open>
  A handler answers through \<open>respondJSON\<close>, which sets the content type, writes the
  status and encodes the data. The data is a job record, a list of job records or a
  \<open>map[string]string\<close>, here the list of its entries.
\<close>

datatype Body = JobBody JobData | JobsBody "JobData list" | MapBody "(string \<times> string) list"

record Response =
  contentType :: string
  status :: nat
  body :: Body

definition StatusOK :: nat where "StatusOK = 200"
definition StatusCreated :: nat where "StatusCreated = 201"
definition StatusBadRequest :: nat where "StatusBadRequest = 400"
definition StatusNotFound :: nat where "StatusNotFound = 404"
definition StatusInternalServerError :: nat where "StatusInternalServerError = 500"

definition respondJSON :: "nat \<Rightarrow> Body \<Rightarrow> Response" where
  "respondJSON st data = \<lparr>contentType = ''application/json'', status = st, body = data\<rparr>"

definition respondError :: "nat \<Rightarrow> string \<Rightarrow> Response" where
  "respondError st message = respondJSON st (MapBody [(''error'', message)])"

section \<open>Libraries the server calls\<close>

text \<open>
  \<open>uuid.Parse\<close>, \<open>UUID.String\<close>, \<open>time.Parse\<close> and \<open>Time.Format\<close> belong to libraries
  outside the repository. The server's functions take them as a parameter.
\<close>

record Lib =
  uuid_Parse :: "string \<Rightarrow> error + UUID"
  uuid_String :: "UUID \<Rightarrow> string"
  time_Parse :: "string \<Rightarrow> string \<Rightarrow> error + Time"
  time_Format :: "Time \<Rightarrow> string \<Rightarrow> string"

definition RFC3339 :: string where
  "RFC3339 = ''2006-01-02T15:04:05Z07:00''"

text \<open>The clock reading of an instant, in UTC: \<open>t.Hour()\<close>, \<open>t.Minute()\<close>, \<open>t.Second()\<close>.\<close>

definition Time_Hour :: "Time \<Rightarrow> int" where
  "Time_Hour t = (t div Second) mod 86400 div 3600"

definition Time_Minute :: "Time \<Rightarrow> int" where
  "Time_Minute t = (t div Second) mod 3600 div 60"

definition Time_Second :: "Time \<Rightarrow> int" where
  "Time_Second t = (t div Second) mod 60"

section \<open>Formatting and parsing times\<close>

definition formatTime :: "Lib \<Rightarrow> Time \<Rightarrow> string" where
  "formatTime lib t = (if IsZero t then [] else time_Format lib t RFC3339)"

definition formatTimes :: "Lib \<Rightarrow> Time list \<Rightarrow> string list" where
  "formatTimes lib ts = foldl (\<lambda>result t. result @ [formatTime lib t]) [] ts"

text \<open>\<open>gocron.NewAtTime(hours, minutes, seconds)\<close>, three unsigned numbers.\<close>

datatype AtTime = NewAtTime nat nat nat

definition parseTime :: "Lib \<Rightarrow> string \<Rightarrow> error + AtTime" where
  "parseTime lib timeStr =
    (case time_Parse lib ''15:04:05'' timeStr of
       Inr t \<Rightarrow> Inr (NewAtTime (nat (Time_Hour t)) (nat (Time_Minute t)) (nat (Time_Second t)))
     | Inl _ \<Rightarrow>
        (case time_Parse lib ''15:04'' timeStr of
           Inl err \<Rightarrow> Inl err
         | Inr t \<Rightarrow> Inr (NewAtTime (nat (Time_Hour t)) (nat (Time_Minute t)) (nat (Time_Second t)))))"

section \<open>The scheduler interface\<close>

text \<open>
  \<open>gocron.Scheduler\<close> is the external scheduler. Its state is a type parameter \<open>'s\<close>; each
  of its operations takes the state and returns the new one with its result. The task that
  \<open>CreateJob\<close> submits is a closure that logs the job's name; \<open>NewTask\<close> holds that name.
\<close>

datatype JobDefinition = DurationJob Duration | CronJob string bool | DailyJob nat "AtTime list"

datatype Task = NewTask string

datatype JobOption = WithName string | WithTags "string list"

record 's Scheduler =
  Jobs :: "'s \<Rightarrow> Job list \<times> 's"
  NewJob :: "JobDefinition \<Rightarrow> Task \<Rightarrow> JobOption list \<Rightarrow> 's \<Rightarrow> (error + Job) \<times> 's"
  RemoveJob :: "UUID \<Rightarrow> 's \<Rightarrow> error option \<times> 's"
  StopJobs :: "'s \<Rightarrow> error option \<times> 's"
  Start :: "'s \<Rightarrow> 's"
  RunNow :: "Job \<Rightarrow> 's \<Rightarrow> error option \<times> 's"

section \<open>Snapshots\<close>

definition convertJobToData :: "Lib \<Rightarrow> Job \<Rightarrow> JobData" where
  "convertJobToData lib job =
    (let nextRun = fst (JobNextRun job);
         lastRun = fst (JobLastRun job);
         nextRuns = fst (JobNextRuns job 5);
         (schedule, scheduleDetail) = inferSchedule job nextRuns
     in \<lparr>ID = uuid_String lib (JobID job),
         Name = JobName job,
         Tags = JobTags job,
         NextRun = formatTime lib nextRun,
         LastRun = formatTime lib lastRun,
         NextRuns = formatTimes lib nextRuns,
         Schedule = schedule,
         ScheduleDetail = scheduleDetail\<rparr>)"

definition getJobsData :: "Lib \<Rightarrow> 's Scheduler \<Rightarrow> 's \<Rightarrow> JobData list \<times> 's" where
  "getJobsData lib sch s =
    (case Jobs sch s of (jobs, s') \<Rightarrow>
       (foldl (\<lambda>result job. result @ [convertJobToData lib job]) [] jobs, s'))"

section \<open>The control API\<close>

text \<open>
  A handler takes the inputs it reads from the request and the scheduler's state, and
  returns the response with the scheduler's new state. \<open>CreateJob\<close> takes the outcome of
  decoding the body: \<open>None\<close> when the decoder fails. The product
  \<open>time.Duration(req.Interval) * time.Second\<close> is an \<open>int64\<close> product and wraps around;
  \<open>uint(req.Interval)\<close> reads the same 64 bits as an unsigned number.
\<close>

definition GetJobs :: "Lib \<Rightarrow> 's Scheduler \<Rightarrow> 's \<Rightarrow> Response \<times> 's" where
  "GetJobs lib sch s =
    (case getJobsData lib sch s of (jobs, s') \<Rightarrow> (respondJSON StatusOK (JobsBody jobs), s'))"


definition CreateJob ::
  "Lib \<Rightarrow> 's Scheduler \<Rightarrow> CreateJobRequest option \<Rightarrow> 's \<Rightarrow> Response \<times> 's" where
  "CreateJob lib sch decoded s =
    (case decoded of
       None \<Rightarrow> (respondError StatusBadRequest ''Invalid request body'', s)
     | Some req \<Rightarrow>
        if Name_req req = [] then (respondError StatusBadRequest ''Job name is required'', s)
        else
          (let checked =
             (if Type req = ''duration'' then
                (if sint (Interval req) \<le> 0 then
                   Inl (respondError StatusBadRequest ''Interval must be positive for duration jobs'')
                 else Inr (DurationJob (sint (Interval req * 1000000000))))
              else if Type req = ''cron'' then
                (if CronExpression req = [] then
                   Inl (respondError StatusBadRequest ''Cron expression is required for cron jobs'')
                 else Inr (CronJob (CronExpression req) False))
              else if Type req = ''daily'' then
                (if sint (Interval req) \<le> 0 then
                   Inl (respondError StatusBadRequest ''Interval must be positive for daily jobs'')
                 else if AtTime req = [] then
                   Inl (respondError StatusBadRequest ''AtTime is required for daily jobs'')
                 else
                   (case parseTime lib (AtTime req) of
                      Inl err \<Rightarrow>
                        Inl (respondError StatusBadRequest ''Invalid time format. Use HH:MM:SS'')
                    | Inr atTime \<Rightarrow> Inr (DailyJob (unat (Interval req)) [atTime])))
              else
                Inl (respondError StatusBadRequest
                       ''Invalid job type. Supported: duration, cron, daily''))
           in
           case checked of
             Inl response \<Rightarrow> (response, s)
           | Inr jobDef \<Rightarrow>
              (let task = NewTask (Name_req req);
                   options = [WithName (Name_req req)]
                     @ (if 0 < length (Tags_req req) then [WithTags (Tags_req req)] else [])
               in
               case NewJob sch jobDef task options s of
                 (Inl err, s') \<Rightarrow> (respondError StatusInternalServerError err, s')
               | (Inr job, s') \<Rightarrow>
                   (respondJSON StatusCreated (JobBody (convertJobToData lib job)), s'))))"

definition DeleteJob :: "Lib \<Rightarrow> 's Scheduler \<Rightarrow> string \<Rightarrow> 's \<Rightarrow> Response \<times> 's" where
  "DeleteJob lib sch idStr s =
    (case uuid_Parse lib idStr of
       Inl err \<Rightarrow> (respondError StatusBadRequest ''Invalid job ID'', s)
     | Inr uid \<Rightarrow>
        (case RemoveJob sch uid s of
           (Some err, s') \<Rightarrow> (respondError StatusNotFound ''Job not found'', s')
         | (None, s') \<Rightarrow>
             (respondJSON StatusOK (MapBody [(''message'', ''Job deleted successfully'')]), s')))"

definition RunJob :: "Lib \<Rightarrow> 's Scheduler \<Rightarrow> string \<Rightarrow> 's \<Rightarrow> Response \<times> 's" where
  "RunJob lib sch idStr s =
    (case uuid_Parse lib idStr of
       Inl err \<Rightarrow> (respondError StatusBadRequest ''Invalid job ID'', s)
     | Inr uid \<Rightarrow>
        (case Jobs sch s of (jobs, s') \<Rightarrow>
          (case find (\<lambda>job. JobID job = uid) jobs of
             Some job \<Rightarrow>
               (case RunNow sch job s' of
                  (Some err, s'') \<Rightarrow> (respondError StatusInternalServerError err, s'')
                | (None, s'') \<Rightarrow>
                    (respondJSON StatusOK (MapBody [(''message'', ''Job executed'')]), s''))
           | None \<Rightarrow> (respondError StatusNotFound ''Job not found'', s'))))"

definition StopScheduler :: "'s Scheduler \<Rightarrow> 's \<Rightarrow> Response \<times> 's" where
  "StopScheduler sch s =
    (case StopJobs sch s of
       (Some err, s') \<Rightarrow> (respondError StatusInternalServerError err, s')
     | (None, s') \<Rightarrow> (respondJSON StatusOK (MapBody [(''message'', ''Scheduler stopped'')]), s'))"

definition StartScheduler :: "'s Scheduler \<Rightarrow> 's \<Rightarrow> Response \<times> 's" where
  "StartScheduler sch s =
    (let s' = Start sch s
     in (respondJSON StatusOK (MapBody [(''message'', ''Scheduler started'')]), s'))"

section \<open>The connection registry and the broadcast loop\<close>

text \<open>
  \<open>wsClients\<close> is a \<open>map[*websocket.Conn]bool\<close>; a connection is modelled by its address.
  The read-write lock around every access is left out: the model runs one critical
  section after the other. \<open>delete\<close> is Go's builtin, which does nothing when the key is
  absent.
\<close>

type_synonym Conn = nat

record Server =
  wsClients :: "Conn \<rightharpoonup> bool"

definition delete :: "('k \<rightharpoonup> 'v) \<Rightarrow> 'k \<Rightarrow> ('k \<rightharpoonup> 'v)" where
  "delete m k = m(k := None)"

definition addClient :: "Conn \<Rightarrow> Server \<Rightarrow> Server" where
  \<comment> \<open>\<open>s.wsClients[conn] = true\<close> under the write lock\<close>
  "addClient conn srv = srv\<lparr>wsClients := (wsClients srv)(conn \<mapsto> True)\<rparr>"

definition removeClient :: "Conn \<Rightarrow> Server \<Rightarrow> Server" where
  \<comment> \<open>\<open>delete(s.wsClients, conn)\<close> under the write lock\<close>
  "removeClient conn srv = srv\<lparr>wsClients := delete (wsClients srv) conn\<rparr>"

text \<open>The message pushed to observers: \<open>{"type": "jobs", "data": jobs}\<close>.\<close>

datatype Message = JobsMessage "JobData list"

text \<open>
  \<open>HandleWebSocket\<close> registers the upgraded connection, sends the first job list (a failed
  send is only logged) and then reads until \<open>ReadMessage\<close> fails, at which point it removes
  the connection and returns. \<open>reads\<close> lists the outcomes of the reads seen so far; when
  none of them is an error the handler is still blocked in \<open>ReadMessage\<close> and the result is
  \<open>None\<close>.
\<close>

fun readLoop :: "Conn \<Rightarrow> error option list \<Rightarrow> Server \<Rightarrow> Server option" where
  "readLoop conn [] srv = None"
| "readLoop conn (None # reads) srv = readLoop conn reads srv"
| "readLoop conn (Some err # reads) srv = Some (removeClient conn srv)"

definition HandleWebSocket ::
  "Lib \<Rightarrow> 's Scheduler \<Rightarrow> (Conn \<Rightarrow> Message \<Rightarrow> error option) \<Rightarrow> error + Conn \<Rightarrow>
     error option list \<Rightarrow> Server \<Rightarrow> 's \<Rightarrow> Server option \<times> 's" where
  "HandleWebSocket lib sch WriteJSON upgraded reads srv s =
    (case upgraded of
       Inl err \<Rightarrow> (Some srv, s)
     | Inr conn \<Rightarrow>
        (let srv' = addClient conn srv in
         case getJobsData lib sch s of (jobs, s') \<Rightarrow>
           (let sent = WriteJSON conn (JobsMessage jobs)
            in (readLoop conn reads srv', s'))))"

text \<open>
  One tick of \<open>broadcastJobUpdates\<close>, the body of its \<open>for range ticker.C\<close> loop.
  \<open>order\<close> is the order in which \<open>range\<close> visits the clients, which Go leaves open.
  A failed write removes the client and closes it.
\<close>

fun broadcastLoop ::
  "(Conn \<Rightarrow> Message \<Rightarrow> error option) \<Rightarrow> Message \<Rightarrow> Conn list \<Rightarrow> Server \<Rightarrow> Server" where
  "broadcastLoop WriteJSON message [] srv = srv"
| "broadcastLoop WriteJSON message (client # rest) srv =
    (case WriteJSON client message of
       None \<Rightarrow> broadcastLoop WriteJSON message rest srv
     | Some err \<Rightarrow> broadcastLoop WriteJSON message rest (removeClient client srv))"

definition broadcastTick ::
  "Lib \<Rightarrow> 's Scheduler \<Rightarrow> (Conn \<Rightarrow> Message \<Rightarrow> error option) \<Rightarrow> Conn list \<Rightarrow>
     Server \<Rightarrow> 's \<Rightarrow> Server \<times> 's" where
  "broadcastTick lib sch WriteJSON order srv s =
    (if dom (wsClients srv) = {} then (srv, s)
     else
       (case getJobsData lib sch s of (jobs, s') \<Rightarrow>
          (broadcastLoop WriteJSON (JobsMessage jobs) order srv, s')))"

section \<open>Recording the calls into the scheduler\<close>

text \<open>
  \<open>recording sch\<close> is the scheduler \<open>sch\<close> with a log beside its state: every operation
  appends the call it received. A handler that leaves the log as it was made no call.
\<close>

datatype Call =
  CallJobs
| CallNewJob JobDefinition Task "JobOption list"
| CallRemoveJob UUID
| CallStopJobs
| CallStart
| CallRunNow UUID

definition recording :: "'s Scheduler \<Rightarrow> ('s \<times> Call list) Scheduler" where
  "recording sch =
    \<lparr>Jobs = (\<lambda>(s, calls). case Jobs sch s of (jobs, s') \<Rightarrow> (jobs, (s', calls @ [CallJobs]))),
     NewJob = (\<lambda>jobDef task options (s, calls).
       case NewJob sch jobDef task options s of
         (r, s') \<Rightarrow> (r, (s', calls @ [CallNewJob jobDef task options]))),
     RemoveJob = (\<lambda>uid (s, calls).
       case RemoveJob sch uid s of (r, s') \<Rightarrow> (r, (s', calls @ [CallRemoveJob uid]))),
     StopJobs = (\<lambda>(s, calls). case StopJobs sch s of (r, s') \<Rightarrow> (r, (s', calls @ [CallStopJobs]))),
     Start = (\<lambda>(s, calls). (Start sch s, calls @ [CallStart])),
     RunNow = (\<lambda>job (s, calls).
       case RunNow sch job s of (r, s') \<Rightarrow> (r, (s', calls @ [CallRunNow (JobID job)])))\<rparr>"

section \<open>The library functions on concrete inputs\<close>

text \<open>
  To run the handlers on concrete requests, the library functions are written out for the
  inputs the server gives them: \<open>time.Parse\<close> for the layouts \<open>15:04:05\<close> and \<open>15:04\<close>,
  \<open>Time.Format\<close> for \<open>RFC3339\<close> in UTC, \<open>uuid.Parse\<close> and \<open>UUID.String\<close>. The text of
  their errors is not reproduced; the server discards it.
\<close>

definition isDigit :: "char \<Rightarrow> bool" where
  "isDigit c = (c \<in> set ''0123456789'')"

definition digitVal :: "char \<Rightarrow> nat" where
  "digitVal c = of_char c - 48"

text \<open>
  \<open>getnum\<close> reads one or two digits; with \<open>fixed\<close> it insists on two.
\<close>

fun getnum :: "string \<Rightarrow> bool \<Rightarrow> (nat \<times> string) option" where
  "getnum [] fixed = None"
| "getnum [c] fixed =
    (if \<not> isDigit c then None else if fixed then None else Some (digitVal c, []))"
| "getnum (c # d # rest) fixed =
    (if \<not> isDigit c then None
     else if \<not> isDigit d then (if fixed then None else Some (digitVal c, d # rest))
     else Some (digitVal c * 10 + digitVal d, rest))"

definition skipColon :: "string \<Rightarrow> string option" where
  "skipColon v = (case v of [] \<Rightarrow> None | c # rest \<Rightarrow> if c = CHR '':'' then Some rest else None)"

fun atoi :: "string \<Rightarrow> nat" where
  "atoi ds = foldl (\<lambda>n c. n * 10 + digitVal c) 0 ds"

text \<open>
  After the seconds, a period or a comma followed by digits is read as a fraction of a
  second even though the layout has none; at most nine digits count.
\<close>

definition fraction :: "string \<Rightarrow> nat \<times> string" where
  "fraction v =
    (case v of
       c # d # rest \<Rightarrow>
         if (c = CHR ''.'' \<or> c = CHR '','') \<and> isDigit d then
           (let ds = take 9 (d # takeWhile isDigit rest)
            in (atoi ds * 10 ^ (9 - length ds), dropWhile isDigit rest))
         else (0, v)
     | _ \<Rightarrow> (0, v))"

text \<open>
  A layout without a date gives January 1 of year 0 in UTC, which is 366 days before the
  zero time.
\<close>

definition clockDate :: "nat \<Rightarrow> nat \<Rightarrow> nat \<Rightarrow> nat \<Rightarrow> Time" where
  "clockDate hour minute sec nsec =
     (int (hour * 3600 + minute * 60 + sec) - 366 * 86400) * Second + int nsec"

definition parseClock :: "bool \<Rightarrow> string \<Rightarrow> error + Time" where
  "parseClock withSeconds v =
    (case getnum v False of
       None \<Rightarrow> Inl ''parsing time: cannot parse hour''
     | Some (hour, v1) \<Rightarrow>
        if 24 \<le> hour then Inl ''parsing time: hour out of range''
        else
          (case skipColon v1 of
             None \<Rightarrow> Inl ''parsing time: cannot parse separator''
           | Some v2 \<Rightarrow>
              (case getnum v2 True of
                 None \<Rightarrow> Inl ''parsing time: cannot parse minute''
               | Some (minute, v3) \<Rightarrow>
                  if 60 \<le> minute then Inl ''parsing time: minute out of range''
                  else if \<not> withSeconds then
                    (if v3 \<noteq> [] then Inl ''parsing time: extra text''
                     else Inr (clockDate hour minute 0 0))
                  else
                    (case skipColon v3 of
                       None \<Rightarrow> Inl ''parsing time: cannot parse separator''
                     | Some v4 \<Rightarrow>
                        (case getnum v4 True of
                           None \<Rightarrow> Inl ''parsing time: cannot parse second''
                         | Some (sec, v5) \<Rightarrow>
                            if 60 \<le> sec then Inl ''parsing time: second out of range''
                            else
                              (case fraction v5 of (nsec, v6) \<Rightarrow>
                                 if v6 \<noteq> [] then Inl ''parsing time: extra text''
                                 else Inr (clockDate hour minute sec nsec)))))))"

definition Parse :: "string \<Rightarrow> string \<Rightarrow> error + Time" where
  "Parse layout v =
    (if layout = ''15:04:05'' then parseClock True v
     else if layout = ''15:04'' then parseClock False v
     else Inl ''parsing time: layout not covered'')"

text \<open>
  \<open>RFC3339\<close> in UTC: the civil date of the day count, four digits for the year (years 0 to
  9999), two for every other field, and \<open>Z\<close> for the zone.
\<close>

definition pad :: "nat \<Rightarrow> int \<Rightarrow> string" where
  "pad w n = (let ds = fmt_nat (nat n) in replicate (w - length ds) CHR ''0'' @ ds)"

definition civil :: "int \<Rightarrow> int \<times> int \<times> int" where
  \<comment> \<open>year, month and day of the day that lies \<open>days\<close> days after January 1, year 1\<close>
  "civil days =
    (let z = days + 306;
         era = z div 146097;
         doe = z mod 146097;
         yoe = (doe - doe div 1460 + doe div 36524 - doe div 146096) div 365;
         doy = doe - (365 * yoe + yoe div 4 - yoe div 100);
         mp = (5 * doy + 2) div 153;
         d = doy - (153 * mp + 2) div 5 + 1;
         m = (if mp < 10 then mp + 3 else mp - 9);
         y = yoe + era * 400 + (if m \<le> 2 then 1 else 0)
     in (y, m, d))"

definition Format :: "Time \<Rightarrow> string \<Rightarrow> string" where
  "Format t layout =
    (if layout = RFC3339 then
       (case civil (t div (86400 * Second)) of (y, m, d) \<Rightarrow>
          pad 4 y @ ''-'' @ pad 2 m @ ''-'' @ pad 2 d @ ''T''
            @ pad 2 (Time_Hour t) @ '':'' @ pad 2 (Time_Minute t) @ '':'' @ pad 2 (Time_Second t)
            @ ''Z'')
     else layout)"

text \<open>
  \<open>uuid.Parse\<close> accepts 36 characters in the form \<open>xxxxxxxx-xxxx-xxxx-xxxx-xxxxxxxxxxxx\<close>,
  the same after \<open>urn:uuid:\<close> or with one character around it on each side, and 32
  hexadecimal digits.
\<close>

definition xvalue :: "char \<Rightarrow> nat option" where
  "xvalue c =
    (if c \<in> set ''0123456789'' then Some (of_char c - 48)
     else if c \<in> set ''abcdef'' then Some (of_char c - 87)
     else if c \<in> set ''ABCDEF'' then Some (of_char c - 55)
     else None)"

fun xtobs :: "string \<Rightarrow> 8 word list option" where
  "xtobs [] = Some []"
| "xtobs [c] = None"
| "xtobs (c # d # rest) =
    (case (xvalue c, xvalue d, xtobs rest) of
       (Some h, Some l, Some bs) \<Rightarrow> Some (of_nat (h * 16 + l) # bs)
     | _ \<Rightarrow> None)"

definition lower :: "char \<Rightarrow> char" where
  "lower c = (if c \<in> set ''ABCDEFGHIJKLMNOPQRSTUVWXYZ'' then char_of (of_char c + (32::nat)) else c)"

definition parseHyphenated :: "string \<Rightarrow> error + UUID" where
  "parseHyphenated v =
    (if v ! 8 \<noteq> CHR ''-'' \<or> v ! 13 \<noteq> CHR ''-'' \<or> v ! 18 \<noteq> CHR ''-'' \<or> v ! 23 \<noteq> CHR ''-''
     then Inl ''invalid UUID format''
     else
       (case xtobs (take 8 v @ take 4 (drop 9 v) @ take 4 (drop 14 v) @ take 4 (drop 19 v)
                      @ take 12 (drop 24 v)) of
          None \<Rightarrow> Inl ''invalid UUID format''
        | Some bs \<Rightarrow> Inr bs))"

definition uuidParse :: "string \<Rightarrow> error + UUID" where
  "uuidParse v =
    (if length v = 36 then parseHyphenated v
     else if length v = 45 then
       (if map lower (take 9 v) \<noteq> ''urn:uuid:'' then Inl ''invalid urn prefix''
        else parseHyphenated (drop 9 v))
     else if length v = 38 then parseHyphenated (drop 1 v)
     else if length v = 32 then
       (case xtobs v of None \<Rightarrow> Inl ''invalid UUID format'' | Some bs \<Rightarrow> Inr bs)
     else Inl ''invalid UUID length'')"

definition hexByte :: "8 word \<Rightarrow> string" where
  "hexByte b = [''0123456789abcdef'' ! (unat b div 16), ''0123456789abcdef'' ! (unat b mod 16)]"

definition uuidString :: "UUID \<Rightarrow> string" where
  "uuidString u =
    (let h = concat (map hexByte u)
     in take 8 h @ ''-'' @ take 4 (drop 8 h) @ ''-'' @ take 4 (drop 12 h) @ ''-''
          @ take 4 (drop 16 h) @ ''-'' @ drop 20 h)"




definition stdLib :: Lib where
  "stdLib = \<lparr>uuid_Parse = uuidParse, uuid_String = uuidString,
             time_Parse = Parse, time_Format = Format\<rparr>"

section \<open>Two schedulers to run the handlers against\<close>

text \<open>
  \<open>memScheduler\<close> keeps the submitted jobs in a list, beside a counter from which it draws
  the next job's identifier, and never fails except when asked to remove or run a job it
  does not hold. \<open>failingScheduler jobs err\<close> holds the given jobs and answers every
  operation that can fail with the error \<open>err\<close>.
\<close>

definition optName :: "JobOption list \<Rightarrow> string" where
  "optName options = foldl (\<lambda>n opt. case opt of WithName x \<Rightarrow> x | WithTags _ \<Rightarrow> n) [] options"

definition optTags :: "JobOption list \<Rightarrow> string list" where
  "optTags options = foldl (\<lambda>ts opt. case opt of WithName _ \<Rightarrow> ts | WithTags x \<Rightarrow> x) [] options"

definition memScheduler :: "(Job list \<times> nat) Scheduler" where
  "memScheduler =
    \<lparr>Jobs = (\<lambda>(jobs, n). (jobs, (jobs, n))),
     NewJob = (\<lambda>jobDef task options (jobs, n).
       (let job = \<lparr>JobID = replicate 15 0 @ [of_nat (Suc n)],
                   JobName = optName options, JobTags = optTags options,
                   JobNextRun = (0, None), JobLastRun = (0, None),
                   JobNextRuns = (\<lambda>count. ([], None))\<rparr>
        in (Inr job, (jobs @ [job], Suc n)))),
     RemoveJob = (\<lambda>uid (jobs, n).
       if uid \<in> JobID ` set jobs then (None, (filter (\<lambda>job. JobID job \<noteq> uid) jobs, n))
       else (Some ''job not found'', (jobs, n))),
     StopJobs = (\<lambda>s. (None, s)),
     Start = (\<lambda>s. s),
     RunNow = (\<lambda>job (jobs, n).
       if JobID job \<in> JobID ` set jobs then (None, (jobs, n))
       else (Some ''job not found'', (jobs, n)))\<rparr>"

definition failingScheduler :: "Job list \<Rightarrow> error \<Rightarrow> unit Scheduler" where
  "failingScheduler jobs err =
    \<lparr>Jobs = (\<lambda>s. (jobs, s)),
     NewJob = (\<lambda>jobDef task options s. (Inl err, s)),
     RemoveJob = (\<lambda>uid s. (Some err, s)),
     StopJobs = (\<lambda>s. (Some err, s)),
     Start = (\<lambda>s. s),
     RunNow = (\<lambda>job s. (Some err, s))\<rparr>"

text \<open>
  A job handle with the given name that runs first at \<open>start\<close> and then every \<open>every\<close>
  nanoseconds, and has not run yet.
\<close>

definition intervalJob :: "string \<Rightarrow> Time \<Rightarrow> Duration \<Rightarrow> Job" where
  "intervalJob name start every = \<lparr>JobID = replicate 16 0, JobName = name, JobTags = [],
     JobNextRun = (start, None), JobLastRun = (0, None),
     JobNextRuns = (\<lambda>count. (map (\<lambda>i. start + int i * every) [0..<count], None))\<rparr>"

text \<open>
  The \<open>switch\<close> of \<open>CreateJob\<close> on its own, and the options it passes to \<open>NewJob\<close>, to
  state lemmas about them: the response of the failing check, or the job definition.
\<close>

definition jobDefinition :: "Lib \<Rightarrow> CreateJobRequest \<Rightarrow> Response + JobDefinition" where
  "jobDefinition lib req =
    (if Type req = ''duration'' then
       (if sint (Interval req) \<le> 0 then
          Inl (respondError StatusBadRequest ''Interval must be positive for duration jobs'')
        else Inr (DurationJob (sint (Interval req * 1000000000))))
     else if Type req = ''cron'' then
       (if CronExpression req = [] then
          Inl (respondError StatusBadRequest ''Cron expression is required for cron jobs'')
        else Inr (CronJob (CronExpression req) False))
     else if Type req = ''daily'' then
       (if sint (Interval req) \<le> 0 then
          Inl (respondError StatusBadRequest ''Interval must be positive for daily jobs'')
        else if AtTime req = [] then
          Inl (respondError StatusBadRequest ''AtTime is required for daily jobs'')
        else
          (case parseTime lib (AtTime req) of
             Inl err \<Rightarrow>
               Inl (respondError StatusBadRequest ''Invalid time format. Use HH:MM:SS'')
           | Inr atTime \<Rightarrow> Inr (DailyJob (unat (Interval req)) [atTime])))
     else
       Inl (respondError StatusBadRequest
              ''Invalid job type. Supported: duration, cron, daily''))"

definition jobOptions :: "CreateJobRequest \<Rightarrow> JobOption list" where
  "jobOptions req = [WithName (Name_req req)]
     @ (if 0 < length (Tags_req req) then [WithTags (Tags_req req)] else [])"

text \<open>A job handle with the given name and no runs, for concrete inputs.\<close>

definition namedJob :: "string \<Rightarrow> Job" where
  "namedJob name = \<lparr>JobID = replicate 16 0, JobName = name, JobTags = [],
     JobNextRun = (0, None), JobLastRun = (0, None), JobNextRuns = (\<lambda>count. ([], None))\<rparr>"

section \<open>The schedule descriptor: name patterns\<close>

lemma Contains_Nil [simp]: "Contains s []"
  by (cases s) simp_all

text \<open>\<open>HasPrefix\<close> and \<open>Contains\<close> compute what their names say.\<close>

lemma HasPrefix_iff: "HasPrefix s p \<longleftrightarrow> (\<exists>ss. s = p @ ss)"
  by (induction s p rule: HasPrefix.induct) auto

lemma Contains_iff: "Contains s sub \<longleftrightarrow> (\<exists>ps ss. s = ps @ sub @ ss)"
proof (induction s)
  case Nil
  then show ?case by simp
next
  case (Cons c cs)
  show ?case
  proof
    assume "Contains (c # cs) sub"
    then consider "HasPrefix (c # cs) sub" | "Contains cs sub" by auto
    then show "\<exists>ps ss. c # cs = ps @ sub @ ss"
    proof cases
      case 1
      then obtain ss where "c # cs = sub @ ss" by (auto simp add: HasPrefix_iff)
      then have "c # cs = [] @ sub @ ss" by simp
      then show ?thesis by blast
    next
      case 2
      with Cons.IH obtain ps ss where "cs = ps @ sub @ ss" by auto
      then have "c # cs = (c # ps) @ sub @ ss" by simp
      then show ?thesis by blast
    qed
  next
    assume "\<exists>ps ss. c # cs = ps @ sub @ ss"
    then obtain ps ss where e: "c # cs = ps @ sub @ ss" by auto
    show "Contains (c # cs) sub"
    proof (cases ps)
      case Nil
      with e have "HasPrefix (c # cs) sub" by (auto simp add: HasPrefix_iff)
      then show ?thesis by simp
    next
      case (Cons p ps')
      with e have "cs = ps' @ sub @ ss" by simp
      with Cons.IH have "Contains cs sub" by blast
      then show ?thesis by simp
    qed
  qed
qed

text \<open>
  Claim C1, as stated: every job whose name contains \<open>daily\<close> is described as
  \<open>Daily\<close> / \<open>Daily schedule\<close>. The patterns are tried in order and \<open>cron\<close> comes before
  \<open>daily\<close>: the job named \<open>cron-daily-backup\<close> contains \<open>daily\<close> and is described as a
  cron schedule.
\<close>

theorem daily_name_counterexample:
  "Contains (JobName (namedJob ''cron-daily-backup'')) ''daily'' \<and>
   inferSchedule (namedJob ''cron-daily-backup'') [] = (''Cron schedule'', ''Cron: * * * * *'')"
  by (simp add: inferSchedule_def namedJob_def)

text \<open>
  Claim C1, amended: a job whose name contains \<open>daily\<close>, does not contain \<open>cron\<close> and does
  not combine \<open>every\<close> or \<open>interval\<close> with one of \<open>10s\<close>, \<open>10-s\<close>, \<open>5s\<close>, \<open>minute\<close> is
  described as \<open>Daily\<close> / \<open>Daily schedule\<close>, whatever its future run timestamps are.
\<close>

theorem daily_name_short_circuits:
  assumes "Contains (JobName job) ''daily''"
    and "\<not> Contains (JobName job) ''cron''"
    and "\<not> ((Contains (JobName job) ''every'' \<or> Contains (JobName job) ''interval'') \<and>
            (Contains (JobName job) ''10s'' \<or> Contains (JobName job) ''10-s'' \<or>
             Contains (JobName job) ''5s'' \<or> Contains (JobName job) ''minute''))"
  shows "inferSchedule job nextRuns = (''Daily'', ''Daily schedule'')"
proof -
  from assms(1) have "JobName job \<noteq> []" by (cases "JobName job") auto
  with assms show ?thesis
    by (auto simp add: inferSchedule_def Let_def)
qed

theorem daily_name_short_circuits_witness:
  "Contains ''daily-afternoon-report'' ''daily'' \<and>
   \<not> Contains ''daily-afternoon-report'' ''cron'' \<and>
   inferSchedule (namedJob ''daily-afternoon-report'') [0, 10 * Second] = (''Daily'', ''Daily schedule'')"
proof -
  have n: "JobName (namedJob ''daily-afternoon-report'') = ''daily-afternoon-report''"
    by (simp add: namedJob_def)
  have a: "Contains (JobName (namedJob ''daily-afternoon-report'')) ''daily''"
    unfolding n by simp
  have b: "\<not> Contains (JobName (namedJob ''daily-afternoon-report'')) ''cron''"
    unfolding n by simp
  have c: "\<not> ((Contains (JobName (namedJob ''daily-afternoon-report'')) ''every'' \<or>
              Contains (JobName (namedJob ''daily-afternoon-report'')) ''interval'') \<and>
            (Contains (JobName (namedJob ''daily-afternoon-report'')) ''10s'' \<or>
             Contains (JobName (namedJob ''daily-afternoon-report'')) ''10-s'' \<or>
             Contains (JobName (namedJob ''daily-afternoon-report'')) ''5s'' \<or>
             Contains (JobName (namedJob ''daily-afternoon-report'')) ''minute''))"
    unfolding n by simp
  from daily_name_short_circuits [OF a b c, of "[0, 10 * Second]"] a b
  show ?thesis unfolding n by simp
qed

section \<open>The connection registry\<close>

lemma delete_idem: "delete (delete m k) k = delete m k"
  by (simp add: delete_def)

lemma delete_absent: "k \<notin> dom m \<Longrightarrow> delete m k = m"
  by (auto simp add: delete_def fun_eq_iff)

lemma dom_broadcastLoop:
  "dom (wsClients (broadcastLoop W msg order srv)) =
   dom (wsClients srv) - {c \<in> set order. W c msg \<noteq> None}"
  by (induction order arbitrary: srv)
     (auto simp add: removeClient_def delete_def split: option.splits)

text \<open>
  Claim C9: removing a connection is idempotent. Removing it twice gives the registry that
  removing it once gives; removing a connection that is absent leaves the registry as it
  was; and when the broadcaster has already removed a connection whose write failed, the
  removal that the connection's own read loop performs on its read error changes nothing.
\<close>

theorem removeClient_idempotent:
  "removeClient conn (removeClient conn srv) = removeClient conn srv \<and>
   (conn \<notin> dom (wsClients srv) \<longrightarrow> removeClient conn srv = srv) \<and>
   (conn \<in> set order \<and> WriteJSON conn message \<noteq> None \<longrightarrow>
      readLoop conn [Some err] (broadcastLoop WriteJSON message order srv)
        = Some (broadcastLoop WriteJSON message order srv))"
proof -
  have 1: "removeClient conn (removeClient conn srv) = removeClient conn srv"
    by (simp add: removeClient_def delete_idem)
  have 2: "removeClient conn srv' = srv'" if "conn \<notin> dom (wsClients srv')" for srv'
    using that by (simp add: removeClient_def delete_absent)
  have 3: "conn \<notin> dom (wsClients (broadcastLoop WriteJSON message order srv))"
    if "conn \<in> set order" "WriteJSON conn message \<noteq> None"
    using that by (simp add: dom_broadcastLoop)
  from 1 2 3 show ?thesis by simp
qed

theorem removeClient_idempotent_witness:
  "removeClient 7 (removeClient 7 \<lparr>wsClients = [7 \<mapsto> True, 9 \<mapsto> True]\<rparr>)
     = removeClient 7 \<lparr>wsClients = [7 \<mapsto> True, 9 \<mapsto> True]\<rparr> \<and>
   (7::nat) \<notin> dom [9 \<mapsto> True] \<and>
   removeClient 7 \<lparr>wsClients = [9 \<mapsto> True]\<rparr> = \<lparr>wsClients = [9 \<mapsto> True]\<rparr> \<and>
   readLoop 7 [Some ''closed'']
       (broadcastLoop (\<lambda>c m. if c = 7 then Some ''broken pipe'' else None) (JobsMessage []) [7, 9]
          \<lparr>wsClients = [7 \<mapsto> True, 9 \<mapsto> True]\<rparr>)
     = Some \<lparr>wsClients = [9 \<mapsto> True]\<rparr>"
proof -
  let ?W = "\<lambda>(c::nat) (m::Message). if c = 7 then Some ''broken pipe'' else None"
  let ?srv = "\<lparr>wsClients = [7 \<mapsto> True, 9 \<mapsto> (True::bool)]\<rparr>"
  have b: "broadcastLoop ?W (JobsMessage []) [7, 9] ?srv = \<lparr>wsClients = [9 \<mapsto> True]\<rparr>"
    by (auto simp add: removeClient_def delete_def fun_eq_iff)
  from removeClient_idempotent [of 7 ?srv "[7, 9]" ?W "JobsMessage []" "''closed''"]
       removeClient_idempotent [of 7 "\<lparr>wsClients = [9 \<mapsto> True]\<rparr>" "[]" ?W "JobsMessage []" "''closed''"]
  show ?thesis unfolding b by simp
qed

section \<open>Starting and stopping the scheduler\<close>

text \<open>
  Claim C10: \<open>StartScheduler\<close> answers 200 with the message \<open>Scheduler started\<close> whatever
  the scheduler does, so never 500; \<open>StopScheduler\<close> answers 500 exactly when \<open>StopJobs\<close>
  returns an error, with that error's text, and 200 otherwise.
\<close>

theorem start_always_ok_stop_fails_on_error:
  "fst (StartScheduler sch s) = respondJSON 200 (MapBody [(''message'', ''Scheduler started'')]) \<and>
   status (fst (StartScheduler sch s)) \<noteq> 500 \<and>
   (status (fst (StopScheduler sch s)) = 500 \<longleftrightarrow> fst (StopJobs sch s) \<noteq> None) \<and>
   (status (fst (StopScheduler sch s)) = 200 \<longleftrightarrow> fst (StopJobs sch s) = None) \<and>
   (\<forall>err. fst (StopJobs sch s) = Some err \<longrightarrow>
      fst (StopScheduler sch s) = respondError 500 err) \<and>
   (fst (StopJobs sch s) = None \<longrightarrow>
      fst (StopScheduler sch s) = respondJSON 200 (MapBody [(''message'', ''Scheduler stopped'')]))"
  by (cases "StopJobs sch s"; cases "fst (StopJobs sch s)")
     (auto simp add: StartScheduler_def StopScheduler_def respondJSON_def respondError_def
        StatusOK_def StatusInternalServerError_def Let_def)

theorem start_always_ok_stop_fails_on_error_witness:
  "fst (StopJobs (failingScheduler [] ''scheduler is shutting down'') ())
     = Some ''scheduler is shutting down'' \<and>
   fst (StopScheduler (failingScheduler [] ''scheduler is shutting down'') ())
     = respondError 500 ''scheduler is shutting down'' \<and>
   fst (StartScheduler (failingScheduler [] ''scheduler is shutting down'') ())
     = respondJSON 200 (MapBody [(''message'', ''Scheduler started'')]) \<and>
   fst (StopJobs memScheduler ([], 0)) = None \<and>
   fst (StopScheduler memScheduler ([], 0))
     = respondJSON 200 (MapBody [(''message'', ''Scheduler stopped'')])"
proof -
  have f: "fst (StopJobs (failingScheduler [] ''scheduler is shutting down'') ())
      = Some ''scheduler is shutting down''"
    by (simp add: failingScheduler_def)
  have m: "fst (StopJobs memScheduler ([], 0)) = None"
    by (simp add: memScheduler_def)
  from start_always_ok_stop_fails_on_error [of "failingScheduler [] ''scheduler is shutting down''" "()"]
       start_always_ok_stop_fails_on_error [of memScheduler "([], 0)"] f m
  show ?thesis by simp
qed

section \<open>Creating a job: validation comes first\<close>

lemma status_respondError [simp]: "status (respondError st msg) = st"
  by (simp add: respondError_def respondJSON_def)

lemma status_respondJSON [simp]: "status (respondJSON st b) = st"
  by (simp add: respondJSON_def)

lemma recording_NewJob:
  "NewJob (recording sch) jobDef task options (s, calls) =
     (fst (NewJob sch jobDef task options s),
      (snd (NewJob sch jobDef task options s), calls @ [CallNewJob jobDef task options]))"
  by (simp add: recording_def split: prod.splits)

lemma submit_recording:
  "(case NewJob (recording sch) jobDef task options (s, calls) of
      (Inl err, s') \<Rightarrow> (respondError StatusInternalServerError err, s')
    | (Inr job, s') \<Rightarrow> (respondJSON StatusCreated (JobBody (convertJobToData lib job)), s'))
   = (case fst (NewJob sch jobDef task options s) of
        Inl err \<Rightarrow> respondError StatusInternalServerError err
      | Inr job \<Rightarrow> respondJSON StatusCreated (JobBody (convertJobToData lib job)),
      (snd (NewJob sch jobDef task options s), calls @ [CallNewJob jobDef task options]))"
  by (simp add: recording_NewJob split: sum.splits)

lemma CreateJob_cases:
  "(status (fst (CreateJob lib (recording sch) decoded (s, calls))) = 400 \<and>
    snd (CreateJob lib (recording sch) decoded (s, calls)) = (s, calls)) \<or>
   (status (fst (CreateJob lib (recording sch) decoded (s, calls))) \<in> {201, 500} \<and>
    (\<exists>jobDef task options.
       snd (snd (CreateJob lib (recording sch) decoded (s, calls)))
         = calls @ [CallNewJob jobDef task options]))"
proof (cases decoded)
  case None
  then show ?thesis by (simp add: CreateJob_def StatusBadRequest_def)
next
  case (Some req)
  show ?thesis
  proof (cases "Name_req req = []")
    case True
    with Some show ?thesis by (simp add: CreateJob_def StatusBadRequest_def)
  next
    case False
    show ?thesis
      unfolding Some CreateJob_def Let_def submit_recording option.case
      using False
      by (simp add: StatusBadRequest_def StatusInternalServerError_def StatusCreated_def
            split: sum.splits)
  qed
qed

text \<open>
  Claim C3: every validation failure of a create-job request is answered with 400 before
  any call into the scheduler. The scheduler is run under \<open>recording\<close>: the state and
  the log of calls come back as they went in. The failures are an undecodable body, an
  empty name, a \<open>duration\<close> job with an interval that is not positive, a \<open>cron\<close> job
  without an expression, a \<open>daily\<close> job with an interval that is not positive or with a
  missing or unparseable \<open>atTime\<close>, and any other type. Whenever the answer is 400 no call
  was made, and whenever a call was made it is one \<open>NewJob\<close> and the answer is 201 or 500.
\<close>

theorem CreateJob_validates_first:
  "CreateJob lib (recording sch) None (s, calls)
     = (respondError 400 ''Invalid request body'', (s, calls)) \<and>
   (Name_req req = [] \<longrightarrow>
      CreateJob lib (recording sch) (Some req) (s, calls)
        = (respondError 400 ''Job name is required'', (s, calls))) \<and>
   (Name_req req \<noteq> [] \<and> Type req = ''duration'' \<and> sint (Interval req) \<le> 0 \<longrightarrow>
      CreateJob lib (recording sch) (Some req) (s, calls)
        = (respondError 400 ''Interval must be positive for duration jobs'', (s, calls))) \<and>
   (Name_req req \<noteq> [] \<and> Type req = ''cron'' \<and> CronExpression req = [] \<longrightarrow>
      CreateJob lib (recording sch) (Some req) (s, calls)
        = (respondError 400 ''Cron expression is required for cron jobs'', (s, calls))) \<and>
   (Name_req req \<noteq> [] \<and> Type req = ''daily'' \<and> sint (Interval req) \<le> 0 \<longrightarrow>
      CreateJob lib (recording sch) (Some req) (s, calls)
        = (respondError 400 ''Interval must be positive for daily jobs'', (s, calls))) \<and>
   (Name_req req \<noteq> [] \<and> Type req = ''daily'' \<and> 0 < sint (Interval req) \<and> AtTime req = [] \<longrightarrow>
      CreateJob lib (recording sch) (Some req) (s, calls)
        = (respondError 400 ''AtTime is required for daily jobs'', (s, calls))) \<and>
   (Name_req req \<noteq> [] \<and> Type req = ''daily'' \<and> 0 < sint (Interval req) \<and> AtTime req \<noteq> [] \<and>
    (\<exists>err. parseTime lib (AtTime req) = Inl err) \<longrightarrow>
      CreateJob lib (recording sch) (Some req) (s, calls)
        = (respondError 400 ''Invalid time format. Use HH:MM:SS'', (s, calls))) \<and>
   (Name_req req \<noteq> [] \<and> Type req \<notin> {''duration'', ''cron'', ''daily''} \<longrightarrow>
      CreateJob lib (recording sch) (Some req) (s, calls)
        = (respondError 400 ''Invalid job type. Supported: duration, cron, daily'', (s, calls))) \<and>
   (status (fst (CreateJob lib (recording sch) decoded (s, calls))) = 400 \<longrightarrow>
      snd (CreateJob lib (recording sch) decoded (s, calls)) = (s, calls)) \<and>
   (snd (snd (CreateJob lib (recording sch) decoded (s, calls))) \<noteq> calls \<longrightarrow>
      status (fst (CreateJob lib (recording sch) decoded (s, calls))) \<in> {201, 500} \<and>
      (\<exists>jobDef task options.
         snd (snd (CreateJob lib (recording sch) decoded (s, calls)))
           = calls @ [CallNewJob jobDef task options]))"
proof (intro conjI)
  show "CreateJob lib (recording sch) None (s, calls)
     = (respondError 400 ''Invalid request body'', (s, calls))"
    by (simp add: CreateJob_def StatusBadRequest_def)
  show "Name_req req = [] \<longrightarrow>
      CreateJob lib (recording sch) (Some req) (s, calls)
        = (respondError 400 ''Job name is required'', (s, calls))"
    by (simp add: CreateJob_def StatusBadRequest_def)
  show "Name_req req \<noteq> [] \<and> Type req = ''duration'' \<and> sint (Interval req) \<le> 0 \<longrightarrow>
      CreateJob lib (recording sch) (Some req) (s, calls)
        = (respondError 400 ''Interval must be positive for duration jobs'', (s, calls))"
    by (simp add: CreateJob_def StatusBadRequest_def)
  show "Name_req req \<noteq> [] \<and> Type req = ''cron'' \<and> CronExpression req = [] \<longrightarrow>
      CreateJob lib (recording sch) (Some req) (s, calls)
        = (respondError 400 ''Cron expression is required for cron jobs'', (s, calls))"
    by (simp add: CreateJob_def StatusBadRequest_def)
  show "Name_req req \<noteq> [] \<and> Type req = ''daily'' \<and> sint (Interval req) \<le> 0 \<longrightarrow>
      CreateJob lib (recording sch) (Some req) (s, calls)
        = (respondError 400 ''Interval must be positive for daily jobs'', (s, calls))"
    by (simp add: CreateJob_def StatusBadRequest_def)
  show "Name_req req \<noteq> [] \<and> Type req = ''daily'' \<and> 0 < sint (Interval req) \<and> AtTime req = [] \<longrightarrow>
      CreateJob lib (recording sch) (Some req) (s, calls)
        = (respondError 400 ''AtTime is required for daily jobs'', (s, calls))"
    by (simp add: CreateJob_def StatusBadRequest_def)
  show "Name_req req \<noteq> [] \<and> Type req = ''daily'' \<and> 0 < sint (Interval req) \<and> AtTime req \<noteq> [] \<and>
    (\<exists>err. parseTime lib (AtTime req) = Inl err) \<longrightarrow>
      CreateJob lib (recording sch) (Some req) (s, calls)
        = (respondError 400 ''Invalid time format. Use HH:MM:SS'', (s, calls))"
    by (auto simp add: CreateJob_def StatusBadRequest_def)
  show "Name_req req \<noteq> [] \<and> Type req \<notin> {''duration'', ''cron'', ''daily''} \<longrightarrow>
      CreateJob lib (recording sch) (Some req) (s, calls)
        = (respondError 400 ''Invalid job type. Supported: duration, cron, daily'', (s, calls))"
    by (simp add: CreateJob_def StatusBadRequest_def)
  show "status (fst (CreateJob lib (recording sch) decoded (s, calls))) = 400 \<longrightarrow>
      snd (CreateJob lib (recording sch) decoded (s, calls)) = (s, calls)"
    using CreateJob_cases [of lib sch decoded s calls] by auto
  show "snd (snd (CreateJob lib (recording sch) decoded (s, calls))) \<noteq> calls \<longrightarrow>
      status (fst (CreateJob lib (recording sch) decoded (s, calls))) \<in> {201, 500} \<and>
      (\<exists>jobDef task options.
         snd (snd (CreateJob lib (recording sch) decoded (s, calls)))
           = calls @ [CallNewJob jobDef task options])"
    using CreateJob_cases [of lib sch decoded s calls] by auto
qed


theorem CreateJob_validates_first_witness:
  "CreateJob stdLib (recording memScheduler)
      (Some \<lparr>Name_req = [], Type = ''duration'', Interval = 5, CronExpression = [],
              AtTime = [], Tags_req = []\<rparr>) (([], 0), [])
     = (respondError 400 ''Job name is required'', (([], 0), [])) \<and>
   CreateJob stdLib (recording memScheduler)
      (Some \<lparr>Name_req = ''x'', Type = ''duration'', Interval = 0, CronExpression = [],
              AtTime = [], Tags_req = []\<rparr>) (([], 0), [])
     = (respondError 400 ''Interval must be positive for duration jobs'', (([], 0), [])) \<and>
   CreateJob stdLib (recording memScheduler)
      (Some \<lparr>Name_req = ''x'', Type = ''cron'', Interval = 0, CronExpression = [],
              AtTime = [], Tags_req = []\<rparr>) (([], 0), [])
     = (respondError 400 ''Cron expression is required for cron jobs'', (([], 0), [])) \<and>
   CreateJob stdLib (recording memScheduler)
      (Some \<lparr>Name_req = ''x'', Type = ''daily'', Interval = - 1, CronExpression = [],
              AtTime = ''14:30'', Tags_req = []\<rparr>) (([], 0), [])
     = (respondError 400 ''Interval must be positive for daily jobs'', (([], 0), [])) \<and>
   CreateJob stdLib (recording memScheduler)
      (Some \<lparr>Name_req = ''x'', Type = ''daily'', Interval = 1, CronExpression = [],
              AtTime = [], Tags_req = []\<rparr>) (([], 0), [])
     = (respondError 400 ''AtTime is required for daily jobs'', (([], 0), [])) \<and>
   CreateJob stdLib (recording memScheduler)
      (Some \<lparr>Name_req = ''x'', Type = ''daily'', Interval = 1, CronExpression = [],
              AtTime = ''25:00'', Tags_req = []\<rparr>) (([], 0), [])
     = (respondError 400 ''Invalid time format. Use HH:MM:SS'', (([], 0), [])) \<and>
   CreateJob stdLib (recording memScheduler)
      (Some \<lparr>Name_req = ''x'', Type = ''weekly'', Interval = 1, CronExpression = [],
              AtTime = ''14:30'', Tags_req = []\<rparr>) (([], 0), [])
     = (respondError 400 ''Invalid job type. Supported: duration, cron, daily'', (([], 0), [])) \<and>
   CreateJob stdLib (recording memScheduler)
      (Some \<lparr>Name_req = ''x'', Type = ''monthly'', Interval = 1, CronExpression = [],
              AtTime = ''14:30'', Tags_req = []\<rparr>) (([], 0), [])
     = (respondError 400 ''Invalid job type. Supported: duration, cron, daily'', (([], 0), [])) \<and>
   snd (snd (CreateJob stdLib (recording memScheduler)
      (Some \<lparr>Name_req = ''x'', Type = ''duration'', Interval = 5, CronExpression = [],
              AtTime = [], Tags_req = []\<rparr>) (([], 0), [])))
     = [CallNewJob (DurationJob 5000000000) (NewTask ''x'') [WithName ''x'']] \<and>
   status (fst (CreateJob stdLib (recording memScheduler)
      (Some \<lparr>Name_req = ''x'', Type = ''duration'', Interval = 5, CronExpression = [],
              AtTime = [], Tags_req = []\<rparr>) (([], 0), []))) \<in> {201, 500}"
proof -
  have bad: "\<exists>err. parseTime stdLib ''25:00'' = Inl err"
    by (simp add: parseTime_def stdLib_def Parse_def parseClock_def isDigit_def digitVal_def)
  have ok: "snd (snd (CreateJob stdLib (recording memScheduler)
      (Some \<lparr>Name_req = ''x'', Type = ''duration'', Interval = 5, CronExpression = [],
              AtTime = [], Tags_req = []\<rparr>) (([], 0), [])))
     = [CallNewJob (DurationJob 5000000000) (NewTask ''x'') [WithName ''x'']]"
    by (simp add: CreateJob_def recording_def memScheduler_def Let_def)
  from CreateJob_validates_first
    [of stdLib memScheduler "([], 0)" "[]"
      "\<lparr>Name_req = [], Type = ''duration'', Interval = 5, CronExpression = [],
              AtTime = [], Tags_req = []\<rparr>"]
  have c1: "CreateJob stdLib (recording memScheduler)
      (Some \<lparr>Name_req = [], Type = ''duration'', Interval = 5, CronExpression = [],
              AtTime = [], Tags_req = []\<rparr>) (([], 0), [])
     = (respondError 400 ''Job name is required'', (([], 0), []))"
    by simp
  from CreateJob_validates_first
    [of stdLib memScheduler "([], 0)" "[]"
      "\<lparr>Name_req = ''x'', Type = ''duration'', Interval = 0, CronExpression = [],
              AtTime = [], Tags_req = []\<rparr>"]
  have c2: "CreateJob stdLib (recording memScheduler)
      (Some \<lparr>Name_req = ''x'', Type = ''duration'', Interval = 0, CronExpression = [],
              AtTime = [], Tags_req = []\<rparr>) (([], 0), [])
     = (respondError 400 ''Interval must be positive for duration jobs'', (([], 0), []))"
    by simp
  from CreateJob_validates_first
    [of stdLib memScheduler "([], 0)" "[]"
      "\<lparr>Name_req = ''x'', Type = ''cron'', Interval = 0, CronExpression = [],
              AtTime = [], Tags_req = []\<rparr>"]
  have c3: "CreateJob stdLib (recording memScheduler)
      (Some \<lparr>Name_req = ''x'', Type = ''cron'', Interval = 0, CronExpression = [],
              AtTime = [], Tags_req = []\<rparr>) (([], 0), [])
     = (respondError 400 ''Cron expression is required for cron jobs'', (([], 0), []))"
    by simp
  from CreateJob_validates_first
    [of stdLib memScheduler "([], 0)" "[]"
      "\<lparr>Name_req = ''x'', Type = ''daily'', Interval = - 1, CronExpression = [],
              AtTime = ''14:30'', Tags_req = []\<rparr>"]
  have c4: "CreateJob stdLib (recording memScheduler)
      (Some \<lparr>Name_req = ''x'', Type = ''daily'', Interval = - 1, CronExpression = [],
              AtTime = ''14:30'', Tags_req = []\<rparr>) (([], 0), [])
     = (respondError 400 ''Interval must be positive for daily jobs'', (([], 0), []))"
    by simp
  from CreateJob_validates_first
    [of stdLib memScheduler "([], 0)" "[]"
      "\<lparr>Name_req = ''x'', Type = ''daily'', Interval = 1, CronExpression = [],
              AtTime = [], Tags_req = []\<rparr>"]
  have c5: "CreateJob stdLib (recording memScheduler)
      (Some \<lparr>Name_req = ''x'', Type = ''daily'', Interval = 1, CronExpression = [],
              AtTime = [], Tags_req = []\<rparr>) (([], 0), [])
     = (respondError 400 ''AtTime is required for daily jobs'', (([], 0), []))"
    by simp
  from bad CreateJob_validates_first
    [of stdLib memScheduler "([], 0)" "[]"
      "\<lparr>Name_req = ''x'', Type = ''daily'', Interval = 1, CronExpression = [],
              AtTime = ''25:00'', Tags_req = []\<rparr>"]
  have c6: "CreateJob stdLib (recording memScheduler)
      (Some \<lparr>Name_req = ''x'', Type = ''daily'', Interval = 1, CronExpression = [],
              AtTime = ''25:00'', Tags_req = []\<rparr>) (([], 0), [])
     = (respondError 400 ''Invalid time format. Use HH:MM:SS'', (([], 0), []))"
    by simp
  from CreateJob_validates_first
    [of stdLib memScheduler "([], 0)" "[]"
      "\<lparr>Name_req = ''x'', Type = ''weekly'', Interval = 1, CronExpression = [],
              AtTime = ''14:30'', Tags_req = []\<rparr>"]
  have c7: "CreateJob stdLib (recording memScheduler)
      (Some \<lparr>Name_req = ''x'', Type = ''weekly'', Interval = 1, CronExpression = [],
              AtTime = ''14:30'', Tags_req = []\<rparr>) (([], 0), [])
     = (respondError 400 ''Invalid job type. Supported: duration, cron, daily'', (([], 0), []))"
    by simp
  from CreateJob_validates_first
    [of stdLib memScheduler "([], 0)" "[]"
      "\<lparr>Name_req = ''x'', Type = ''monthly'', Interval = 1, CronExpression = [],
              AtTime = ''14:30'', Tags_req = []\<rparr>"]
  have c8: "CreateJob stdLib (recording memScheduler)
      (Some \<lparr>Name_req = ''x'', Type = ''monthly'', Interval = 1, CronExpression = [],
              AtTime = ''14:30'', Tags_req = []\<rparr>) (([], 0), [])
     = (respondError 400 ''Invalid job type. Supported: duration, cron, daily'', (([], 0), []))"
    by simp
  from ok CreateJob_validates_first
    [of stdLib memScheduler "([], 0)" "[]" _
      "Some \<lparr>Name_req = ''x'', Type = ''duration'', Interval = 5, CronExpression = [],
              AtTime = [], Tags_req = []\<rparr>"]
  have c9: "status (fst (CreateJob stdLib (recording memScheduler)
      (Some \<lparr>Name_req = ''x'', Type = ''duration'', Interval = 5, CronExpression = [],
              AtTime = [], Tags_req = []\<rparr>) (([], 0), []))) \<in> {201, 500}"
    by simp
  from c1 c2 c3 c4 c5 c6 c7 c8 ok c9 show ?thesis by (intro conjI)
qed

section \<open>Operations on one job\<close>

lemma recording_Jobs:
  "Jobs (recording sch) (s, calls) = (fst (Jobs sch s), (snd (Jobs sch s), calls @ [CallJobs]))"
  by (simp add: recording_def split: prod.splits)

lemma recording_RemoveJob:
  "RemoveJob (recording sch) uid (s, calls) =
     (fst (RemoveJob sch uid s), (snd (RemoveJob sch uid s), calls @ [CallRemoveJob uid]))"
  by (simp add: recording_def split: prod.splits)

lemma recording_RunNow:
  "RunNow (recording sch) job (s, calls) =
     (fst (RunNow sch job s), (snd (RunNow sch job s), calls @ [CallRunNow (JobID job)]))"
  by (simp add: recording_def split: prod.splits)








lemma replicate_15: "replicate 15 x = [x, x, x, x, x, x, x, x, x, x, x, x, x, x, x]"
  by (simp add: numeral_eq_Suc)

lemma replicate_16: "replicate 16 x = [x, x, x, x, x, x, x, x, x, x, x, x, x, x, x, x]"
  by (simp add: numeral_eq_Suc)







section \<open>Errors of the scheduler\<close>

lemma CreateJob_Some:
  "Name_req req \<noteq> [] \<Longrightarrow>
   CreateJob lib sch (Some req) s =
     (case jobDefinition lib req of
        Inl response \<Rightarrow> (response, s)
      | Inr jobDef \<Rightarrow>
          (case NewJob sch jobDef (NewTask (Name_req req)) (jobOptions req) s of
             (Inl err, s') \<Rightarrow> (respondError StatusInternalServerError err, s')
           | (Inr job, s') \<Rightarrow>
               (respondJSON StatusCreated (JobBody (convertJobToData lib job)), s')))"
  unfolding CreateJob_def jobDefinition_def jobOptions_def Let_def by simp

lemma CreateJob_submitted:
  assumes "snd (snd (CreateJob lib (recording sch) decoded (s, calls)))
             = calls @ [CallNewJob jobDef task options]"
  shows "fst (CreateJob lib (recording sch) decoded (s, calls)) =
          (case fst (NewJob sch jobDef task options s) of
             Inl err \<Rightarrow> respondError 500 err
           | Inr job \<Rightarrow> respondJSON 201 (JobBody (convertJobToData lib job)))"
proof (cases decoded)
  case None
  with assms show ?thesis by (simp add: CreateJob_def)
next
  case (Some req)
  show ?thesis
  proof (cases "Name_req req = []")
    case True
    with Some assms show ?thesis by (simp add: CreateJob_def)
  next
    case False
    show ?thesis
    proof (cases "jobDefinition lib req")
      case (Inl response)
      with assms Some False show ?thesis by (simp add: CreateJob_Some)
    next
      case (Inr jobDef')
      with assms Some False show ?thesis
        by (simp add: CreateJob_Some submit_recording StatusInternalServerError_def
              StatusCreated_def split: sum.splits)
    qed
  qed
qed


text \<open>
  Claim C5, as stated: every control operation that receives an error from the scheduler
  answers with the scheduler's own error text, delete included. \<open>DeleteJob\<close> answers any
  error of \<open>RemoveJob\<close> with 404 and the fixed text \<open>Job not found\<close>: here the scheduler's
  text is \<open>gocron: job not found\<close>.
\<close>

theorem delete_error_text_counterexample:
  "uuid_Parse stdLib ''00000000-0000-0000-0000-000000000001''
     = Inr [0, 0, 0, 0, 0, 0, 0, 0, 0, 0, 0, 0, 0, 0, 0, 1] \<and>
   fst (RemoveJob (failingScheduler [] ''gocron: job not found'')
          [0, 0, 0, 0, 0, 0, 0, 0, 0, 0, 0, 0, 0, 0, 0, 1] ())
     = Some ''gocron: job not found'' \<and>
   fst (DeleteJob stdLib (failingScheduler [] ''gocron: job not found'')
          ''00000000-0000-0000-0000-000000000001'' ())
     = respondError 404 ''Job not found''"
  by (simp add: DeleteJob_def failingScheduler_def stdLib_def uuidParse_def parseHyphenated_def
        xvalue_def StatusNotFound_def)

text \<open>
  Claim C5, amended: a request to create a job that passes validation, and a request to
  run a job that exists, are answered with 500 and the scheduler's own error text when the
  scheduler's call fails, and the scheduler is called once, not again. A request to delete
  a job is answered with 404 and the text \<open>Job not found\<close> when \<open>RemoveJob\<close> fails, whatever
  its error says, also after a single call.
\<close>

theorem scheduler_errors_surfaced:
  "(\<forall>jobDef task options err.
      snd (snd (CreateJob lib (recording sch) decoded (s, calls)))
        = calls @ [CallNewJob jobDef task options] \<and>
      fst (NewJob sch jobDef task options s) = Inl err \<longrightarrow>
      fst (CreateJob lib (recording sch) decoded (s, calls)) = respondError 500 err) \<and>
   (\<forall>uid job err.
      uuid_Parse lib idStr = Inr uid \<and>
      find (\<lambda>job. JobID job = uid) (fst (Jobs sch s)) = Some job \<and>
      fst (RunNow sch job (snd (Jobs sch s))) = Some err \<longrightarrow>
      fst (RunJob lib (recording sch) idStr (s, calls)) = respondError 500 err \<and>
      snd (snd (RunJob lib (recording sch) idStr (s, calls)))
        = calls @ [CallJobs, CallRunNow uid]) \<and>
   (\<forall>uid err.
      uuid_Parse lib idStr = Inr uid \<and> fst (RemoveJob sch uid s) = Some err \<longrightarrow>
      fst (DeleteJob lib (recording sch) idStr (s, calls)) = respondError 404 ''Job not found'' \<and>
      snd (snd (DeleteJob lib (recording sch) idStr (s, calls))) = calls @ [CallRemoveJob uid])"
proof -
  have create: "\<forall>jobDef task options err.
      snd (snd (CreateJob lib (recording sch) decoded (s, calls)))
        = calls @ [CallNewJob jobDef task options] \<and>
      fst (NewJob sch jobDef task options s) = Inl err \<longrightarrow>
      fst (CreateJob lib (recording sch) decoded (s, calls)) = respondError 500 err"
    by (simp add: CreateJob_submitted)
  have run: "\<forall>uid job err.
      uuid_Parse lib idStr = Inr uid \<and>
      find (\<lambda>job. JobID job = uid) (fst (Jobs sch s)) = Some job \<and>
      fst (RunNow sch job (snd (Jobs sch s))) = Some err \<longrightarrow>
      fst (RunJob lib (recording sch) idStr (s, calls)) = respondError 500 err \<and>
      snd (snd (RunJob lib (recording sch) idStr (s, calls)))
        = calls @ [CallJobs, CallRunNow uid]"
  proof (intro allI impI)
    fix uid job err
    assume a: "uuid_Parse lib idStr = Inr uid \<and>
      find (\<lambda>job. JobID job = uid) (fst (Jobs sch s)) = Some job \<and>
      fst (RunNow sch job (snd (Jobs sch s))) = Some err"
    then have "JobID job = uid" by (auto simp add: find_Some_iff)
    with a show "fst (RunJob lib (recording sch) idStr (s, calls)) = respondError 500 err \<and>
      snd (snd (RunJob lib (recording sch) idStr (s, calls)))
        = calls @ [CallJobs, CallRunNow uid]"
      by (simp add: RunJob_def recording_Jobs recording_RunNow StatusInternalServerError_def)
  qed
  have del: "\<forall>uid err.
      uuid_Parse lib idStr = Inr uid \<and> fst (RemoveJob sch uid s) = Some err \<longrightarrow>
      fst (DeleteJob lib (recording sch) idStr (s, calls)) = respondError 404 ''Job not found'' \<and>
      snd (snd (DeleteJob lib (recording sch) idStr (s, calls))) = calls @ [CallRemoveJob uid]"
    by (simp add: DeleteJob_def recording_RemoveJob StatusNotFound_def)
  from create run del show ?thesis by (intro conjI)
qed

theorem scheduler_errors_surfaced_witness:
  "fst (CreateJob stdLib (recording (failingScheduler [namedJob ''report''] ''gocron: scheduler stopped''))
      (Some \<lparr>Name_req = ''x'', Type = ''duration'', Interval = 5, CronExpression = [],
              AtTime = [], Tags_req = []\<rparr>) ((), []))
     = respondError 500 ''gocron: scheduler stopped'' \<and>
   fst (RunJob stdLib (recording (failingScheduler [namedJob ''report''] ''gocron: scheduler stopped''))
      ''00000000-0000-0000-0000-000000000000'' ((), []))
     = respondError 500 ''gocron: scheduler stopped'' \<and>
   snd (snd (RunJob stdLib (recording (failingScheduler [namedJob ''report''] ''gocron: scheduler stopped''))
      ''00000000-0000-0000-0000-000000000000'' ((), [])))
     = [CallJobs, CallRunNow (replicate 16 0)] \<and>
   fst (DeleteJob stdLib (recording (failingScheduler [namedJob ''report''] ''gocron: scheduler stopped''))
      ''00000000-0000-0000-0000-000000000000'' ((), []))
     = respondError 404 ''Job not found'' \<and>
   snd (snd (DeleteJob stdLib (recording (failingScheduler [namedJob ''report''] ''gocron: scheduler stopped''))
      ''00000000-0000-0000-0000-000000000000'' ((), [])))
     = [CallRemoveJob (replicate 16 0)]"
proof -
  let ?sch = "failingScheduler [namedJob ''report''] ''gocron: scheduler stopped''"
  let ?req = "\<lparr>Name_req = ''x'', Type = ''duration'', Interval = 5, CronExpression = [],
              AtTime = [], Tags_req = []\<rparr>"
  have p: "uuid_Parse stdLib ''00000000-0000-0000-0000-000000000000'' = Inr (replicate 16 0)"
    by (simp add: stdLib_def uuidParse_def parseHyphenated_def xvalue_def replicate_16)
  have sub: "snd (snd (CreateJob stdLib (recording ?sch) (Some ?req) ((), [])))
      = [] @ [CallNewJob (DurationJob 5000000000) (NewTask ''x'') [WithName ''x'']]"
    by (simp add: CreateJob_def recording_def failingScheduler_def Let_def)
  have new: "fst (NewJob ?sch (DurationJob 5000000000) (NewTask ''x'') [WithName ''x''] ())
      = Inl ''gocron: scheduler stopped''"
    by (simp add: failingScheduler_def)
  have fnd: "find (\<lambda>job. JobID job = replicate 16 0) (fst (Jobs ?sch ())) = Some (namedJob ''report'')"
    by (simp add: failingScheduler_def namedJob_def)
  have run: "fst (RunNow ?sch (namedJob ''report'') (snd (Jobs ?sch ()))) = Some ''gocron: scheduler stopped''"
    by (simp add: failingScheduler_def)
  have rem: "fst (RemoveJob ?sch (replicate 16 0) ()) = Some ''gocron: scheduler stopped''"
    by (simp add: failingScheduler_def)
  from scheduler_errors_surfaced
    [of stdLib ?sch "Some ?req" "()" "[]" "''00000000-0000-0000-0000-000000000000''"]
    p sub new fnd run rem
  show ?thesis by simp
qed

section \<open>The broadcast tick\<close>

lemma getJobsData_recording:
  "snd (getJobsData lib (recording sch) (s, calls)) = (snd (Jobs sch s), calls @ [CallJobs])"
  by (simp add: getJobsData_def recording_Jobs)

text \<open>
  Claim C8: a tick on an empty registry builds no snapshot. Under the recording scheduler
  the tick returns the server, the scheduler's state and the log of calls as they were:
  \<open>Jobs\<close>, the source of every snapshot, is not called. On a registry that is not empty
  the tick calls \<open>Jobs\<close> once and makes no other call, whatever the number of clients and
  however many of their writes fail.
\<close>

theorem tick_builds_no_snapshot_without_clients:
  "(dom (wsClients srv) = {} \<longrightarrow>
      broadcastTick lib (recording sch) WriteJSON order srv (s, calls) = (srv, (s, calls))) \<and>
   (dom (wsClients srv) \<noteq> {} \<longrightarrow>
      snd (snd (broadcastTick lib (recording sch) WriteJSON order srv (s, calls)))
        = calls @ [CallJobs])"
proof -
  obtain jobs s' calls' where g: "getJobsData lib (recording sch) (s, calls) = (jobs, (s', calls'))"
    by (cases "getJobsData lib (recording sch) (s, calls)") auto
  with getJobsData_recording [of lib sch s calls] have "calls' = calls @ [CallJobs]" by simp
  with g show ?thesis by (simp add: broadcastTick_def)
qed

theorem tick_builds_no_snapshot_without_clients_witness:
  "dom (wsClients \<lparr>wsClients = Map.empty\<rparr>) = {} \<and>
   broadcastTick stdLib (recording memScheduler) (\<lambda>c m. None) [] \<lparr>wsClients = Map.empty\<rparr>
       (([namedJob ''report''], 0), [])
     = (\<lparr>wsClients = Map.empty\<rparr>, (([namedJob ''report''], 0), [])) \<and>
   dom (wsClients \<lparr>wsClients = [7 \<mapsto> True, 9 \<mapsto> True]\<rparr>) \<noteq> {} \<and>
   snd (snd (broadcastTick stdLib (recording memScheduler)
       (\<lambda>c m. if c = 7 then Some ''broken pipe'' else None) [7, 9]
       \<lparr>wsClients = [7 \<mapsto> True, 9 \<mapsto> True]\<rparr> (([namedJob ''report''], 0), [])))
     = [CallJobs]"
proof -
  have e: "dom (wsClients \<lparr>wsClients = Map.empty\<rparr>) = {}" by simp
  have n: "dom (wsClients \<lparr>wsClients = [7 \<mapsto> True, 9 \<mapsto> True]\<rparr>) \<noteq> {}" by simp
  from tick_builds_no_snapshot_without_clients
      [of "\<lparr>wsClients = Map.empty\<rparr>" stdLib memScheduler "\<lambda>c m. None" "[]"
          "([namedJob ''report''], 0)" "[]"]
       tick_builds_no_snapshot_without_clients
      [of "\<lparr>wsClients = [7 \<mapsto> True, 9 \<mapsto> True]\<rparr>" stdLib memScheduler
          "\<lambda>c m. if c = 7 then Some ''broken pipe'' else None" "[7, 9]"
          "([namedJob ''report''], 0)" "[]"] e n
  show ?thesis by simp
qed

section \<open>Timestamps of a snapshot\<close>

lemma foldl_snoc_map: "foldl (\<lambda>result x. result @ [f x]) acc xs = acc @ map f xs"
  by (induction xs arbitrary: acc) simp_all

lemma formatTimes_map: "formatTimes lib ts = map (formatTime lib) ts"
  by (simp add: formatTimes_def foldl_snoc_map)

lemma convertJobToData_fields:
  "NextRun (convertJobToData lib job) = formatTime lib (fst (JobNextRun job))"
  "LastRun (convertJobToData lib job) = formatTime lib (fst (JobLastRun job))"
  "NextRuns (convertJobToData lib job) = map (formatTime lib) (fst (JobNextRuns job 5))"
  "Schedule (convertJobToData lib job) = fst (inferSchedule job (fst (JobNextRuns job 5)))"
  "ScheduleDetail (convertJobToData lib job) = snd (inferSchedule job (fst (JobNextRuns job 5)))"
  by (simp_all add: convertJobToData_def Let_def formatTimes_map split: prod.splits)

text \<open>
  Claim C7: in a snapshot, \<open>nextRun\<close> and \<open>lastRun\<close> are the empty string when the
  scheduler's timestamp is the zero time and its rendering in the layout \<open>RFC3339\<close>
  otherwise. \<open>nextRuns\<close> renders, entry by entry, the run times that the job returns when
  asked for 5 of them: when the job returns no more run times than it is asked for, there
  are at most 5, and when it returns them soonest first, the entries follow run times that
  do not decrease.
\<close>

theorem snapshot_timestamps:
  "(IsZero (fst (JobNextRun job)) \<longrightarrow> NextRun (convertJobToData lib job) = []) \<and>
   (\<not> IsZero (fst (JobNextRun job)) \<longrightarrow>
      NextRun (convertJobToData lib job) = time_Format lib (fst (JobNextRun job)) RFC3339) \<and>
   (IsZero (fst (JobLastRun job)) \<longrightarrow> LastRun (convertJobToData lib job) = []) \<and>
   (\<not> IsZero (fst (JobLastRun job)) \<longrightarrow>
      LastRun (convertJobToData lib job) = time_Format lib (fst (JobLastRun job)) RFC3339) \<and>
   NextRuns (convertJobToData lib job) = map (formatTime lib) (fst (JobNextRuns job 5)) \<and>
   ((\<forall>count. length (fst (JobNextRuns job count)) \<le> count) \<longrightarrow>
      length (NextRuns (convertJobToData lib job)) \<le> 5) \<and>
   (sorted (fst (JobNextRuns job 5)) \<longrightarrow>
      (\<forall>i j. i \<le> j \<and> j < length (NextRuns (convertJobToData lib job)) \<longrightarrow>
         NextRuns (convertJobToData lib job) ! i = formatTime lib (fst (JobNextRuns job 5) ! i) \<and>
         NextRuns (convertJobToData lib job) ! j = formatTime lib (fst (JobNextRuns job 5) ! j) \<and>
         fst (JobNextRuns job 5) ! i \<le> fst (JobNextRuns job 5) ! j))"
proof -
  have len: "length (NextRuns (convertJobToData lib job)) \<le> 5"
    if "\<forall>count. length (fst (JobNextRuns job count)) \<le> count"
    using that [rule_format, of 5] by (simp add: convertJobToData_fields)
  have ord: "fst (JobNextRuns job 5) ! i \<le> fst (JobNextRuns job 5) ! j"
    if "sorted (fst (JobNextRuns job 5))" "i \<le> j" "j < length (fst (JobNextRuns job 5))" for i j
    using that by (simp add: sorted_iff_nth_mono)
  from len ord show ?thesis
    by (simp add: convertJobToData_fields formatTime_def)
qed



theorem snapshot_timestamps_witness:
  "\<not> IsZero (fst (JobNextRun (intervalJob ''heartbeat'' 63897408000000000000 (10 * Second)))) \<and>
   IsZero (fst (JobLastRun (intervalJob ''heartbeat'' 63897408000000000000 (10 * Second)))) \<and>
   NextRun (convertJobToData stdLib (intervalJob ''heartbeat'' 63897408000000000000 (10 * Second)))
     = ''2025-10-30T08:00:00Z'' \<and>
   LastRun (convertJobToData stdLib (intervalJob ''heartbeat'' 63897408000000000000 (10 * Second)))
     = [] \<and>
   sorted (fst (JobNextRuns (intervalJob ''heartbeat'' 63897408000000000000 (10 * Second)) 5)) \<and>
   length (NextRuns (convertJobToData stdLib
     (intervalJob ''heartbeat'' 63897408000000000000 (10 * Second)))) \<le> 5 \<and>
   NextRuns (convertJobToData stdLib (intervalJob ''heartbeat'' 63897408000000000000 (10 * Second))) ! 1
     = formatTime stdLib 63897408010000000000 \<and>
   (63897408000000000000 :: int) \<le> 63897408010000000000"
proof -
  let ?job = "intervalJob ''heartbeat'' 63897408000000000000 (10 * Second)"
  have runs: "fst (JobNextRuns ?job 5) =
      [63897408000000000000, 63897408010000000000, 63897408020000000000,
       63897408030000000000, 63897408040000000000]"
    by (simp add: intervalJob_def Second_def) code_simp
  have nz: "\<not> IsZero (fst (JobNextRun ?job))" by (simp add: IsZero_def intervalJob_def)
  have z: "IsZero (fst (JobLastRun ?job))" by (simp add: IsZero_def intervalJob_def)
  have s: "sorted (fst (JobNextRuns ?job 5))" unfolding runs by simp
  have c: "\<forall>count. length (fst (JobNextRuns ?job count)) \<le> count"
    by (simp add: intervalJob_def)
  have "Format 63897408000000000000 RFC3339 = ''2025-10-30T08:00:00Z''"
    by code_simp
  then have f: "time_Format stdLib (fst (JobNextRun ?job)) RFC3339 = ''2025-10-30T08:00:00Z''"
    by (simp add: stdLib_def intervalJob_def)
  have l: "length (fst (JobNextRuns ?job 5)) = 5" unfolding runs by simp
  from snapshot_timestamps [of ?job stdLib] nz z s c
  have t: "NextRun (convertJobToData stdLib ?job) = time_Format stdLib (fst (JobNextRun ?job)) RFC3339"
    "LastRun (convertJobToData stdLib ?job) = []"
    "length (NextRuns (convertJobToData stdLib ?job)) \<le> 5"
    "NextRuns (convertJobToData stdLib ?job) = map (formatTime stdLib) (fst (JobNextRuns ?job 5))"
    "\<forall>i j. i \<le> j \<and> j < length (NextRuns (convertJobToData stdLib ?job)) \<longrightarrow>
         NextRuns (convertJobToData stdLib ?job) ! i = formatTime stdLib (fst (JobNextRuns ?job 5) ! i) \<and>
         NextRuns (convertJobToData stdLib ?job) ! j = formatTime stdLib (fst (JobNextRuns ?job 5) ! j) \<and>
         fst (JobNextRuns ?job 5) ! i \<le> fst (JobNextRuns ?job 5) ! j"
    by simp_all
  from t(4) l have l': "length (NextRuns (convertJobToData stdLib ?job)) = 5" by simp
  from t(5) [rule_format, of 0 1] l'
  have o: "NextRuns (convertJobToData stdLib ?job) ! 1 = formatTime stdLib (fst (JobNextRuns ?job 5) ! 1)"
    "fst (JobNextRuns ?job 5) ! 0 \<le> fst (JobNextRuns ?job 5) ! 1"
    by simp_all
  from nz z s t(1,2,3) f o show ?thesis unfolding runs by simp
qed

section \<open>Parsing the time of a daily job\<close>

lemma stdLib_fields:
  "uuid_Parse stdLib = uuidParse" "uuid_String stdLib = uuidString"
  "time_Parse stdLib = Parse" "time_Format stdLib = Format"
  by (simp_all add: stdLib_def)

lemma clock_hour:
  assumes "0 \<le> h" "h < 24" "0 \<le> m" "m < 60" "0 \<le> s" "s < 60"
  shows "(h * 3600 + m * 60 + s - 31622400) mod 86400 div 3600 = (h::int)"
proof -
  have "h * 3600 + m * 60 + s - 31622400 = (h * 3600 + m * 60 + s) + (- 366) * 86400"
    by simp
  then have "(h * 3600 + m * 60 + s - 31622400) mod 86400 = (h * 3600 + m * 60 + s) mod 86400"
    by (simp only: mod_mult_self1)
  also have "\<dots> = h * 3600 + m * 60 + s" using assms by simp
  finally show ?thesis using assms by simp
qed

lemma clock_minute:
  assumes "0 \<le> m" "m < 60" "0 \<le> s" "s < 60"
  shows "(h * 3600 + m * 60 + s - 31622400) mod 3600 div 60 = (m::int)"
proof -
  have "h * 3600 + m * 60 + s - 31622400 = (m * 60 + s) + (h - 8784) * 3600"
    by simp
  then have "(h * 3600 + m * 60 + s - 31622400) mod 3600 = (m * 60 + s) mod 3600"
    by (simp only: mod_mult_self1)
  also have "\<dots> = m * 60 + s" using assms by simp
  finally show ?thesis using assms by simp
qed

lemma clock_second:
  assumes "0 \<le> s" "s < 60"
  shows "(h * 3600 + m * 60 + s - 31622400) mod 60 = (s::int)"
proof -
  have "h * 3600 + m * 60 + s - 31622400 = s + (h * 60 + m - 527040) * 60"
    by simp
  then have "(h * 3600 + m * 60 + s - 31622400) mod 60 = s mod 60"
    by (simp only: mod_mult_self1)
  also have "\<dots> = s" using assms by simp
  finally show ?thesis .
qed

lemma clockDate_div:
  assumes "ns < 1000000000"
  shows "clockDate h m s ns div Second = int h * 3600 + int m * 60 + int s - 31622400"
proof -
  have "clockDate h m s ns = (int h * 3600 + int m * 60 + int s - 31622400) * 1000000000 + int ns"
    by (simp add: clockDate_def Second_def)
  moreover have "((int h * 3600 + int m * 60 + int s - 31622400) * 1000000000 + int ns) div 1000000000
      = int h * 3600 + int m * 60 + int s - 31622400"
    using assms by simp
  ultimately show ?thesis by (simp add: Second_def)
qed

lemma clockDate_clock:
  assumes "h < 24" "m < 60" "s < 60" "ns < 1000000000"
  shows "Time_Hour (clockDate h m s ns) = int h"
    and "Time_Minute (clockDate h m s ns) = int m"
    and "Time_Second (clockDate h m s ns) = int s"
proof -
  note d = clockDate_div [OF assms(4), of h m s]
  show "Time_Hour (clockDate h m s ns) = int h"
    unfolding Time_Hour_def d using clock_hour [of "int h" "int m" "int s"] assms by simp
  show "Time_Minute (clockDate h m s ns) = int m"
    unfolding Time_Minute_def d using clock_minute [of "int m" "int s" "int h"] assms by simp
  show "Time_Second (clockDate h m s ns) = int s"
    unfolding Time_Second_def d using clock_second [of "int s" "int h" "int m"] assms by simp
qed

lemma parseClock_minutes:
  assumes "parseClock False v = Inr t"
  shows "nat (Time_Hour t) < 24 \<and> nat (Time_Minute t) < 60 \<and> nat (Time_Second t) = 0 \<and>
         (\<exists>err. parseClock True v = Inl err)"
  using assms
  by (auto simp add: parseClock_def skipColon_def clockDate_clock not_le
        split: option.splits if_splits)


text \<open>
  Claim C6: \<open>parseTime\<close> tries the layout with seconds first and takes its result when it
  succeeds; only when it fails does the layout without seconds decide, and its error is
  the one returned. With the library's parser, a string that the layout without seconds
  accepts is rejected by the layout with seconds and gets 0 seconds; \<open>14:30\<close> is such a
  string, and a daily job created with it passes validation and is submitted as a
  \<open>DailyJob\<close> at 14:30:00.
\<close>

theorem parseTime_seconds_then_minutes:
  "(\<forall>t. time_Parse lib ''15:04:05'' timeStr = Inr t \<longrightarrow>
      parseTime lib timeStr
        = Inr (NewAtTime (nat (Time_Hour t)) (nat (Time_Minute t)) (nat (Time_Second t)))) \<and>
   (\<forall>err t. time_Parse lib ''15:04:05'' timeStr = Inl err \<and>
            time_Parse lib ''15:04'' timeStr = Inr t \<longrightarrow>
      parseTime lib timeStr
        = Inr (NewAtTime (nat (Time_Hour t)) (nat (Time_Minute t)) (nat (Time_Second t)))) \<and>
   (\<forall>err err'. time_Parse lib ''15:04:05'' timeStr = Inl err \<and>
               time_Parse lib ''15:04'' timeStr = Inl err' \<longrightarrow>
      parseTime lib timeStr = Inl err') \<and>
   (\<forall>t. Parse ''15:04'' timeStr = Inr t \<longrightarrow>
      (\<exists>err. Parse ''15:04:05'' timeStr = Inl err) \<and>
      nat (Time_Hour t) < 24 \<and> nat (Time_Minute t) < 60 \<and>
      parseTime stdLib timeStr = Inr (NewAtTime (nat (Time_Hour t)) (nat (Time_Minute t)) 0)) \<and>
   (\<exists>err. Parse ''15:04:05'' ''14:30'' = Inl err) \<and>
   parseTime stdLib ''14:30'' = Inr (NewAtTime 14 30 0) \<and>
   CreateJob stdLib (recording memScheduler)
      (Some \<lparr>Name_req = ''x'', Type = ''daily'', Interval = 1, CronExpression = [],
              AtTime = ''14:30'', Tags_req = []\<rparr>) (([], 0), [])
     = (respondJSON 201 (JobBody
          \<lparr>ID = ''00000000-0000-0000-0000-000000000001'', Name = ''x'', Tags = [],
           NextRun = [], LastRun = [], NextRuns = [],
           Schedule = ''Scheduled'', ScheduleDetail = ''Custom schedule''\<rparr>),
        (([\<lparr>JobID = [0, 0, 0, 0, 0, 0, 0, 0, 0, 0, 0, 0, 0, 0, 0, 1], JobName = ''x'',
            JobTags = [], JobNextRun = (0, None), JobLastRun = (0, None),
            JobNextRuns = (\<lambda>count. ([], None))\<rparr>], 1),
         [CallNewJob (DailyJob 1 [NewAtTime 14 30 0]) (NewTask ''x'') [WithName ''x'']]))"
proof -
  have first: "\<forall>t. time_Parse lib ''15:04:05'' timeStr = Inr t \<longrightarrow>
      parseTime lib timeStr
        = Inr (NewAtTime (nat (Time_Hour t)) (nat (Time_Minute t)) (nat (Time_Second t)))"
    by (simp add: parseTime_def)
  have second: "\<forall>err t. time_Parse lib ''15:04:05'' timeStr = Inl err \<and>
            time_Parse lib ''15:04'' timeStr = Inr t \<longrightarrow>
      parseTime lib timeStr
        = Inr (NewAtTime (nat (Time_Hour t)) (nat (Time_Minute t)) (nat (Time_Second t)))"
    by (simp add: parseTime_def)
  have neither: "\<forall>err err'. time_Parse lib ''15:04:05'' timeStr = Inl err \<and>
               time_Parse lib ''15:04'' timeStr = Inl err' \<longrightarrow>
      parseTime lib timeStr = Inl err'"
    by (simp add: parseTime_def)
  have minutes: "\<forall>t. Parse ''15:04'' timeStr = Inr t \<longrightarrow>
      (\<exists>err. Parse ''15:04:05'' timeStr = Inl err) \<and>
      nat (Time_Hour t) < 24 \<and> nat (Time_Minute t) < 60 \<and>
      parseTime stdLib timeStr = Inr (NewAtTime (nat (Time_Hour t)) (nat (Time_Minute t)) 0)"
  proof (intro allI impI)
    fix t assume "Parse ''15:04'' timeStr = Inr t"
    then have p: "parseClock False timeStr = Inr t" by (simp add: Parse_def)
    from parseClock_minutes [OF p] p
    show "(\<exists>err. Parse ''15:04:05'' timeStr = Inl err) \<and>
      nat (Time_Hour t) < 24 \<and> nat (Time_Minute t) < 60 \<and>
      parseTime stdLib timeStr = Inr (NewAtTime (nat (Time_Hour t)) (nat (Time_Minute t)) 0)"
      by (auto simp add: Parse_def parseTime_def stdLib_def)
  qed
  have p1: "Parse ''15:04:05'' ''14:30'' = Inl ''parsing time: cannot parse separator''"
    by (simp add: Parse_def parseClock_def isDigit_def digitVal_def skipColon_def)
  then have fails: "\<exists>err. Parse ''15:04:05'' ''14:30'' = Inl err" by simp
  have p2: "Parse ''15:04'' ''14:30'' = Inr (clockDate 14 30 0 0)"
    by (simp add: Parse_def parseClock_def isDigit_def digitVal_def skipColon_def)
  have at: "parseTime stdLib ''14:30'' = Inr (NewAtTime 14 30 0)"
    by (simp add: parseTime_def stdLib_def p1 p2 clockDate_clock)
  have created: "CreateJob stdLib (recording memScheduler)
      (Some \<lparr>Name_req = ''x'', Type = ''daily'', Interval = 1, CronExpression = [],
              AtTime = ''14:30'', Tags_req = []\<rparr>) (([], 0), [])
     = (respondJSON 201 (JobBody
          \<lparr>ID = ''00000000-0000-0000-0000-000000000001'', Name = ''x'', Tags = [],
           NextRun = [], LastRun = [], NextRuns = [],
           Schedule = ''Scheduled'', ScheduleDetail = ''Custom schedule''\<rparr>),
        (([\<lparr>JobID = [0, 0, 0, 0, 0, 0, 0, 0, 0, 0, 0, 0, 0, 0, 0, 1], JobName = ''x'',
            JobTags = [], JobNextRun = (0, None), JobLastRun = (0, None),
            JobNextRuns = (\<lambda>count. ([], None))\<rparr>], 1),
         [CallNewJob (DailyJob 1 [NewAtTime 14 30 0]) (NewTask ''x'') [WithName ''x'']]))"
    by (simp add: CreateJob_def at recording_def memScheduler_def Let_def StatusCreated_def
          convertJobToData_def inferSchedule_def formatTime_def formatTimes_def IsZero_def
          optName_def optTags_def replicate_15 stdLib_fields uuidString_def hexByte_def)
  from first second neither minutes fails at created show ?thesis by (intro conjI)
qed


theorem parseTime_seconds_then_minutes_witness:
  "time_Parse stdLib ''15:04:05'' ''14:30:05'' = Inr (clockDate 14 30 5 0) \<and>
   parseTime stdLib ''14:30:05'' = Inr (NewAtTime 14 30 5) \<and>
   time_Parse stdLib ''15:04:05'' ''14:30'' = Inl ''parsing time: cannot parse separator'' \<and>
   time_Parse stdLib ''15:04'' ''14:30'' = Inr (clockDate 14 30 0 0) \<and>
   parseTime stdLib ''14:30'' = Inr (NewAtTime 14 30 0) \<and>
   time_Parse stdLib ''15:04:05'' ''25:00'' = Inl ''parsing time: hour out of range'' \<and>
   time_Parse stdLib ''15:04'' ''25:00'' = Inl ''parsing time: hour out of range'' \<and>
   parseTime stdLib ''25:00'' = Inl ''parsing time: hour out of range''"
proof -
  have a: "time_Parse stdLib ''15:04:05'' ''14:30:05'' = Inr (clockDate 14 30 5 0)"
    by (simp add: stdLib_fields Parse_def parseClock_def isDigit_def digitVal_def skipColon_def
          fraction_def)
  have b: "time_Parse stdLib ''15:04:05'' ''14:30'' = Inl ''parsing time: cannot parse separator''"
    by (simp add: stdLib_fields Parse_def parseClock_def isDigit_def digitVal_def skipColon_def)
  have c: "time_Parse stdLib ''15:04'' ''14:30'' = Inr (clockDate 14 30 0 0)"
    by (simp add: stdLib_fields Parse_def parseClock_def isDigit_def digitVal_def skipColon_def)
  have d: "time_Parse stdLib ''15:04:05'' ''25:00'' = Inl ''parsing time: hour out of range''"
    by (simp add: stdLib_fields Parse_def parseClock_def isDigit_def digitVal_def skipColon_def)
  have e: "time_Parse stdLib ''15:04'' ''25:00'' = Inl ''parsing time: hour out of range''"
    by (simp add: stdLib_fields Parse_def parseClock_def isDigit_def digitVal_def skipColon_def)
  from parseTime_seconds_then_minutes [of stdLib "''14:30:05''"] a
  have r1: "parseTime stdLib ''14:30:05'' = Inr (NewAtTime 14 30 5)"
    by (simp add: clockDate_clock)
  from parseTime_seconds_then_minutes [of stdLib "''14:30''"] b c
  have r2: "parseTime stdLib ''14:30'' = Inr (NewAtTime 14 30 0)"
    by (simp add: clockDate_clock)
  from parseTime_seconds_then_minutes [of stdLib "''25:00''"] d e
  have r3: "parseTime stdLib ''25:00'' = Inl ''parsing time: hour out of range''"
    by simp
  from a r1 b c r2 d e r3 show ?thesis by (intro conjI)
qed

section \<open>Rounding to \<open>float64\<close>\<close>

lemma pow2_powi: "pow2 e = 2 powi e"
  by (simp add: pow2_def power_int_def inverse_eq_divide power_one_over)

lemma pow2_pos [simp]: "0 < pow2 e"
  by (simp add: pow2_powi)

lemma pow2_nonneg [simp]: "0 \<le> pow2 e"
  by (rule less_imp_le) simp

lemma pow2_neq0 [simp]: "pow2 e \<noteq> 0"
  by (simp add: pow2_powi)

lemma int_pow2_le_rat: "(2::int) ^ n \<le> r \<Longrightarrow> (2::rat) ^ n \<le> of_int r"
  using of_int_le_iff [of "2 ^ n" r, where ?'a = rat] by simp

lemma int_less_pow2_rat: "a < (2::int) ^ n \<Longrightarrow> (of_int a :: rat) < 2 ^ n"
  using of_int_less_iff [of a "2 ^ n", where ?'a = rat] by simp

lemma pow2_add: "pow2 (a + b) = pow2 a * pow2 b"
  by (simp add: pow2_powi power_int_add)

lemma pow2_nat: "0 \<le> e \<Longrightarrow> pow2 e = 2 ^ nat e"
  by (simp add: pow2_def)

lemma pow2_mono: "a \<le> b \<Longrightarrow> pow2 a \<le> pow2 b"
  by (simp add: pow2_powi power_int_increasing)

lemma binexp_bounds:
  assumes "0 < x"
  shows "pow2 (binexp x) \<le> x \<and> x < pow2 (binexp x + 1)"
proof -
  obtain p q where pq: "quotient_of x = (p, q)" by (cases "quotient_of x")
  then have q: "0 < q" and x: "x = of_int p / of_int q"
    by (simp_all add: quotient_of_denom_pos quotient_of_div)
  from assms q x have p: "0 < p" by (simp add: zero_less_divide_iff)
  define k where "k = bitlen p - bitlen q"
  have bp: "1 \<le> bitlen p" and bq: "1 \<le> bitlen q"
    using p q by (simp_all add: bitlen_alt_def)
  from bitlen_bounds [OF p] have p1: "(2::int) ^ nat (bitlen p - 1) \<le> p" and p2: "p < 2 ^ nat (bitlen p)"
    by simp_all
  from bitlen_bounds [OF q] have q1: "(2::int) ^ nat (bitlen q - 1) \<le> q" and q2: "q < 2 ^ nat (bitlen q)"
    by simp_all
  have P1: "pow2 (bitlen p - 1) \<le> of_int p"
    using p1 bp by (simp add: pow2_nat)
  have P2: "of_int p < pow2 (bitlen p)"
    using p2 bp by (simp add: pow2_nat)
  have Q1: "pow2 (bitlen q - 1) \<le> of_int q"
    using q1 bq by (simp add: pow2_nat)
  have Q2: "of_int q < pow2 (bitlen q)"
    using q2 bq by (simp add: pow2_nat)
  have qpos: "(0::rat) < of_int q" using q by simp
  have up: "x < pow2 (k + 1)"
  proof -
    have "of_int p < pow2 (bitlen p)" by (rule P2)
    also have "pow2 (bitlen p) = pow2 (k + 1) * pow2 (bitlen q - 1)"
      by (simp add: k_def pow2_add [symmetric])
    also have "\<dots> \<le> pow2 (k + 1) * of_int q"
      using Q1 by (simp add: mult_left_mono less_imp_le)
    finally show ?thesis using qpos by (simp add: x pos_divide_less_eq)
  qed
  have low: "pow2 (k - 1) < x"
  proof -
    have "pow2 (k - 1) * of_int q < pow2 (k - 1) * pow2 (bitlen q)"
      using Q2 by (simp add: mult_strict_left_mono)
    also have "\<dots> = pow2 (bitlen p - 1)"
      by (simp add: k_def pow2_add [symmetric])
    also have "\<dots> \<le> of_int p" by (rule P1)
    finally show ?thesis using qpos by (simp add: x pos_less_divide_eq)
  qed
  have b: "binexp x = (if pow2 k \<le> x then k else k - 1)"
    by (simp add: binexp_def pq k_def Let_def)
  show ?thesis
  proof (cases "pow2 k \<le> x")
    case True
    with b up show ?thesis by simp
  next
    case False
    with b low show ?thesis by (simp add: less_imp_le)
  qed
qed

lemma round_even_bounds: "\<lfloor>y\<rfloor> \<le> round_even y \<and> round_even y \<le> \<lceil>y\<rceil>"
proof -
  have "\<lfloor>y\<rfloor> + 1 \<le> \<lceil>y\<rceil>" if "y \<noteq> of_int \<lfloor>y\<rfloor>"
    using that by (metis ceiling_altdef eq_refl)
  moreover have "y - of_int \<lfloor>y\<rfloor> \<noteq> 0" if "y \<noteq> of_int \<lfloor>y\<rfloor>" using that by simp
  ultimately show ?thesis
    by (auto simp add: round_even_def Let_def)
qed

lemma round_even_error: "of_int (round_even y) \<le> y + 1 / 2 \<and> y - 1 / 2 \<le> of_int (round_even y)"
proof -
  define n where "n = \<lfloor>y\<rfloor>"
  have "of_int n \<le> y" "y < of_int n + 1" unfolding n_def by linarith+
  then show ?thesis unfolding round_even_def Let_def n_def [symmetric] by auto
qed


lemma float64_pos:
  "0 < x \<Longrightarrow>
   float64 x = of_int (round_even (x / pow2 (binexp x - 52))) * pow2 (binexp x - 52)"
  by (simp add: float64_def Let_def)

lemma scaled_bounds:
  assumes "0 < x"
  shows "2 ^ 52 \<le> x / pow2 (binexp x - 52)" and "x / pow2 (binexp x - 52) < 2 ^ 53"
proof -
  have e: "pow2 (binexp x) = pow2 (binexp x - 52) * 2 ^ 52"
    using pow2_add [of "binexp x - 52" 52] by (simp add: pow2_nat)
  have e': "pow2 (binexp x + 1) = pow2 (binexp x - 52) * 2 ^ 53"
    using pow2_add [of "binexp x - 52" 53] by (simp add: pow2_nat add.commute)
  from binexp_bounds [OF assms] show "2 ^ 52 \<le> x / pow2 (binexp x - 52)"
    unfolding e by (simp add: pos_le_divide_eq mult.commute)
  from binexp_bounds [OF assms] show "x / pow2 (binexp x - 52) < 2 ^ 53"
    unfolding e' by (simp add: pos_divide_less_eq mult.commute)
qed

lemma float64_upper:
  assumes "0 < x"
  shows "float64 x \<le> x + x / 2 ^ 53"
proof -
  define P where "P = pow2 (binexp x - 52)"
  define y where "y = x / P"
  have P: "0 < P" by (simp add: P_def)
  have xy: "y * P = x" using P by (simp add: y_def)
  have "P * 2 ^ 52 \<le> x"
    using scaled_bounds(1) [OF assms] P unfolding P_def [symmetric]
    by (simp add: pos_le_divide_eq mult.commute)
  then have h: "P / 2 \<le> x / 2 ^ 53" by simp
  have "of_int (round_even y) * P \<le> (y + 1 / 2) * P"
    using round_even_error [of y] P by (simp add: mult_right_mono less_imp_le)
  also have "\<dots> = x + P / 2" using xy by (simp add: algebra_simps)
  also have "\<dots> \<le> x + x / 2 ^ 53" using h by simp
  finally show ?thesis using assms by (simp add: float64_pos P_def y_def)
qed

lemma float64_nonneg: "0 \<le> x \<Longrightarrow> 0 \<le> float64 x"
proof (cases "x = 0")
  case True
  then show ?thesis by (simp add: float64_def)
next
  case False
  assume "0 \<le> x"
  with False have x: "0 < x" by simp
  have "(0::rat) \<le> 2 ^ 52" by simp
  also have "\<dots> \<le> x / pow2 (binexp x - 52)" by (rule scaled_bounds(1) [OF x])
  finally have "0 \<le> \<lfloor>x / pow2 (binexp x - 52)\<rfloor>" by simp
  with round_even_bounds [of "x / pow2 (binexp x - 52)"]
  have "0 \<le> round_even (x / pow2 (binexp x - 52))" by linarith
  then show ?thesis using x by (simp add: float64_pos)
qed

lemma float64_ge_int:
  assumes "0 \<le> a" "a < 2 ^ 53" "of_int a \<le> x"
  shows "of_int a \<le> float64 x"
proof (cases "a = 0")
  case True
  with assms float64_nonneg [of x] show ?thesis by simp
next
  case False
  with assms(1) have "(0::rat) < of_int a" by simp
  with assms(3) have x: "0 < x" by simp
  define e where "e = binexp x - 52"
  define y where "y = x / pow2 e"
  define r where "r = round_even y"
  have f: "float64 x = of_int r * pow2 e"
    using x by (simp add: float64_pos e_def y_def r_def)
  have y1: "2 ^ 52 \<le> y" using scaled_bounds(1) [OF x] by (simp add: y_def e_def)
  have fr: "\<lfloor>y\<rfloor> \<le> r" using round_even_bounds [of y] by (simp add: r_def)
  show ?thesis
  proof (cases "1 \<le> e")
    case True
    have "(2::int) ^ 52 \<le> \<lfloor>y\<rfloor>" using y1 by (simp add: le_floor_iff)
    from this fr have "(2::int) ^ 52 \<le> r" by (rule order_trans)
    then have "(2::rat) ^ 52 \<le> of_int r"
      by (rule int_pow2_le_rat)
    moreover have "pow2 1 \<le> pow2 e" using True by (rule pow2_mono)
    ultimately have "2 ^ 52 * pow2 1 \<le> of_int r * pow2 e"
      by (intro mult_mono) simp_all
    then have "(2::rat) ^ 53 \<le> float64 x" by (simp add: f pow2_nat)
    moreover have "(of_int a :: rat) < 2 ^ 53"
      using assms(2) by (rule int_less_pow2_rat)
    ultimately show ?thesis by simp
  next
    case False
    then have e: "e \<le> 0" by simp
    define m where "m = a * 2 ^ nat (- e)"
    have inv: "pow2 (- e) * pow2 e = 1"
      using pow2_add [of "- e" e] by (simp add: pow2_nat)
    have m: "(of_int m :: rat) = of_int a * pow2 (- e)"
      using e by (simp add: m_def pow2_nat)
    have "of_int a * pow2 (- e) \<le> x * pow2 (- e)"
      using assms(3) by (simp add: mult_right_mono less_imp_le)
    also have "x * pow2 (- e) = y"
      using inv by (simp add: y_def field_simps)
    finally have "of_int m \<le> y" by (simp add: m)
    then have "m \<le> \<lfloor>y\<rfloor>" by (simp add: le_floor_iff)
    with fr have "m \<le> r" by simp
    then have "(of_int m :: rat) \<le> of_int r" by simp
    then have "of_int m * pow2 e \<le> of_int r * pow2 e"
      by (simp add: mult_right_mono less_imp_le)
    moreover have "of_int m * pow2 e = (of_int a :: rat)"
      using inv by (simp add: m mult.assoc)
    ultimately show ?thesis by (simp add: f)
  qed
qed

lemma float64_le_int:
  assumes "0 \<le> x" "x \<le> of_int b" "b < 2 ^ 53"
  shows "float64 x \<le> of_int b"
proof (cases "x = 0")
  case True
  with assms show ?thesis by (simp add: float64_def)
next
  case False
  with assms have x: "0 < x" by simp
  define e where "e = binexp x - 52"
  define y where "y = x / pow2 e"
  define r where "r = round_even y"
  have f: "float64 x = of_int r * pow2 e"
    using x by (simp add: float64_pos e_def y_def r_def)
  have y1: "2 ^ 52 \<le> y" using scaled_bounds(1) [OF x] by (simp add: y_def e_def)
  have fr: "r \<le> \<lceil>y\<rceil>" using round_even_bounds [of y] by (simp add: r_def)
  have xy: "x = y * pow2 e" by (simp add: y_def)
  have e: "e \<le> 0"
  proof (rule ccontr)
    assume "\<not> e \<le> 0"
    then have "pow2 1 \<le> pow2 e" by (intro pow2_mono) simp
    with y1 have "2 ^ 52 * pow2 1 \<le> y * pow2 e" by (intro mult_mono) simp_all
    then have "(2::rat) ^ 53 \<le> x" by (simp add: xy [symmetric] pow2_nat)
    moreover have "(of_int b :: rat) < 2 ^ 53"
      using assms(3) by (rule int_less_pow2_rat)
    ultimately show False using assms(2) by simp
  qed
  define m where "m = b * 2 ^ nat (- e)"
  have inv: "pow2 (- e) * pow2 e = 1"
    using pow2_add [of "- e" e] by (simp add: pow2_nat)
  have m: "(of_int m :: rat) = of_int b * pow2 (- e)"
    using e by (simp add: m_def pow2_nat)
  have "x * pow2 (- e) \<le> of_int b * pow2 (- e)"
    using assms(2) by (simp add: mult_right_mono less_imp_le)
  moreover have "x * pow2 (- e) = y"
    using inv by (simp add: y_def field_simps)
  ultimately have "y \<le> of_int m" by (simp add: m)
  then have "\<lceil>y\<rceil> \<le> m" by (simp add: ceiling_le_iff)
  with fr have "r \<le> m" by simp
  then have "(of_int r :: rat) \<le> of_int m" by simp
  then have "of_int r * pow2 e \<le> of_int m * pow2 e"
    by (simp add: mult_right_mono less_imp_le)
  moreover have "of_int m * pow2 e = (of_int b :: rat)"
    using inv by (simp add: m mult.assoc)
  ultimately show ?thesis by (simp add: f)
qed

lemma float64_of_int:
  assumes "0 \<le> n" "n < 2 ^ 53"
  shows "float64 (of_int n) = of_int n"
proof -
  have "of_int n \<le> float64 (of_int n)"
    using assms by (intro float64_ge_int) simp_all
  moreover have "float64 (of_int n) \<le> of_int n"
    using assms by (intro float64_le_int) simp_all
  ultimately show ?thesis by simp
qed

lemma float64_upper0:
  assumes "0 \<le> x"
  shows "float64 x \<le> x + x / 2 ^ 53"
proof (cases "x = 0")
  case True
  then show ?thesis by (simp add: float64_def)
next
  case False
  with assms have "0 < x" by simp
  then show ?thesis by (rule float64_upper)
qed

lemma unit_quotient:
  fixes a n U :: int
  assumes "0 \<le> a" "0 \<le> n" "n < U" "(a + 3) * U \<le> 2 ^ 53"
  shows "to_int (float64 (float64 (of_int a) + float64 (float64 (of_int n) / of_int U))) = a"
proof -
  define eps :: rat where "eps = 1 / 2 ^ 53"
  define c :: rat where "c = 1 / of_int U"
  define x :: rat where "x = of_int n / of_int U"
  define q where "q = float64 x"
  define s where "s = of_int a + q"
  have U: "1 \<le> U" using assms(2,3) by simp
  have Ur: "(0::rat) < of_int U" using U by simp
  have "(a + 3) * 1 \<le> (a + 3) * U" using assms(1) U by (intro mult_left_mono) simp_all
  with assms(4) have a53: "a + 3 \<le> 2 ^ 53" by simp
  have "1 * U \<le> (a + 3) * U" using assms(1) U by (intro mult_right_mono) simp_all
  with assms(4) have U53: "U \<le> 2 ^ 53" by simp
  have fa: "float64 (of_int a) = of_int a"
    using assms(1) a53 by (intro float64_of_int) simp_all
  have fn: "float64 (of_int n) = of_int n"
    using assms(2,3) U53 by (intro float64_of_int) simp_all
  have eps: "0 < eps" "eps < 1" by (simp_all add: eps_def)
  have c: "0 < c" using Ur by (simp add: c_def)
  have "of_int ((a + 3) * U) \<le> (of_int (2 ^ 53) :: rat)"
    using assms(4) by (simp only: of_int_le_iff)
  then have "(of_int a + 3) * of_int U \<le> (2 ^ 53 :: rat)" by simp
  then have ceps: "(of_int a + 3) * eps \<le> c"
    using Ur by (simp add: eps_def c_def field_simps)
  have x0: "0 \<le> x" using assms(2) Ur by (simp add: x_def)
  have "of_int n \<le> (of_int U - 1 :: rat)"
    using assms(3) by (metis of_int_1 of_int_diff of_int_le_iff zle_diff1_eq)
  then have x1: "x \<le> 1 - c"
    using Ur by (simp add: x_def c_def field_simps)
  have q0: "0 \<le> q" using x0 by (simp add: q_def float64_nonneg)
  have "q \<le> x + x / 2 ^ 53" using x0 unfolding q_def by (rule float64_upper0)
  also have "\<dots> = x * (1 + eps)" by (simp add: eps_def algebra_simps)
  also have "\<dots> \<le> (1 - c) * (1 + eps)"
    using x1 eps(1) by (intro mult_right_mono) simp_all
  finally have q1: "q \<le> (1 - c) * (1 + eps)" .
  have s0: "of_int a \<le> s" using q0 by (simp add: s_def)
  have "(0::rat) \<le> of_int a" using assms(1) by simp
  with s0 have s00: "0 \<le> s" by simp
  have low: "of_int a \<le> float64 s"
    using assms(1) a53 s0 by (intro float64_ge_int) simp_all
  have "float64 s \<le> s + s / 2 ^ 53" using s00 by (rule float64_upper0)
  also have "\<dots> = s * (1 + eps)" by (simp add: eps_def algebra_simps)
  also have "\<dots> \<le> (of_int a + (1 - c) * (1 + eps)) * (1 + eps)"
    using q1 eps(1) unfolding s_def by (intro mult_right_mono) simp_all
  also have "\<dots> = of_int a + of_int a * eps + (1 + 2 * eps + eps * eps) - c * ((1 + eps) * (1 + eps))"
    by (simp add: algebra_simps)
  also have "\<dots> < of_int a + 1"
  proof -
    have "c * 1 \<le> c * ((1 + eps) * (1 + eps))"
      using c eps(1) by (intro mult_left_mono) (simp_all add: algebra_simps)
    moreover have "eps * eps < eps * 1"
      using eps by (intro mult_strict_left_mono) simp_all
    moreover have "(of_int a + 3) * eps = of_int a * eps + 3 * eps" by (simp add: algebra_simps)
    ultimately show ?thesis using ceps by simp
  qed
  finally have up: "float64 s < of_int a + 1" .
  from s00 have "0 \<le> float64 s" by (rule float64_nonneg)
  moreover from low up have "\<lfloor>float64 s\<rfloor> = a" by linarith
  ultimately show ?thesis
    by (simp add: to_int_def fa fn s_def q_def x_def)
qed

section \<open>The schedule descriptor: intervals\<close>

lemma sdiv_nonneg: "0 \<le> d \<Longrightarrow> 0 < u \<Longrightarrow> d sdiv u = d div (u::int)"
  by (simp add: signed_divide_int_def sgn_if)

lemma smod_nonneg: "0 \<le> d \<Longrightarrow> 0 < u \<Longrightarrow> d smod u = d mod (u::int)"
  by (simp add: signed_modulo_int_def sgn_if)

lemma Seconds_whole:
  assumes "0 \<le> d" "d < Minute"
  shows "to_int (Seconds d) = d div Second"
proof -
  have a: "0 \<le> d div 1000000000" using assms(1) by (simp add: pos_imp_zdiv_nonneg_iff)
  have "d div 1000000000 < 60" using assms(2) unfolding Minute_def Second_def by linarith
  then have b: "(d div 1000000000 + 3) * 1000000000 \<le> 2 ^ 53" by simp
  have n: "0 \<le> d mod 1000000000" "d mod 1000000000 < 1000000000" by simp_all
  from unit_quotient [OF a n b] assms(1) show ?thesis
    by (simp add: Seconds_def Second_def sdiv_nonneg smod_nonneg Let_def)
qed

lemma Minutes_whole:
  assumes "0 \<le> d" "d < Hour"
  shows "to_int (Minutes d) = d div Minute"
proof -
  have a: "0 \<le> d div 60000000000" using assms(1) by (simp add: pos_imp_zdiv_nonneg_iff)
  have "d div 60000000000 < 60"
    using assms(2) unfolding Hour_def Minute_def Second_def by linarith
  then have b: "(d div 60000000000 + 3) * 60000000000 \<le> 2 ^ 53" by simp
  have n: "0 \<le> d mod 60000000000" "d mod 60000000000 < 60000000000" by simp_all
  from unit_quotient [OF a n b] assms(1) show ?thesis
    by (simp add: Minutes_def Minute_def Second_def sdiv_nonneg smod_nonneg Let_def)
qed

lemma Hours_whole:
  assumes "0 \<le> d" "d < 24 * Hour"
  shows "to_int (Hours d) = d div Hour"
proof -
  have a: "0 \<le> d div 3600000000000" using assms(1) by (simp add: pos_imp_zdiv_nonneg_iff)
  have "d div 3600000000000 < 24"
    using assms(2) unfolding Hour_def Minute_def Second_def by linarith
  then have b: "(d div 3600000000000 + 3) * 3600000000000 \<le> 2 ^ 53" by simp
  have n: "0 \<le> d mod 3600000000000" "d mod 3600000000000 < 3600000000000" by simp_all
  from unit_quotient [OF a n b] assms(1) show ?thesis
    by (simp add: Hours_def Hour_def Minute_def Second_def sdiv_nonneg smod_nonneg Let_def)
qed


lemma Hours_between:
  assumes "0 \<le> d" "d \<le> maxDuration"
  shows "of_int (d div Hour) \<le> Hours d" and "Hours d \<le> of_int (d div Hour + 1)"
proof -
  define h where "h = d div 3600000000000"
  define n where "n = d mod 3600000000000"
  define q where "q = float64 (of_int n / 3600000000000)"
  have h0: "0 \<le> h" using assms(1) by (simp add: h_def pos_imp_zdiv_nonneg_iff)
  have dm: "d \<le> 9223372036854775807" using assms(2) by (simp add: maxDuration_def)
  have "h \<le> 2562047" using dm unfolding h_def by linarith
  then have h53: "h + 1 < 2 ^ 53" by simp
  have n: "0 \<le> n" "n < 3600000000000" by (simp_all add: n_def)
  have fh: "float64 (of_int h) = of_int h"
    using h0 h53 by (intro float64_of_int) simp_all
  have fn: "float64 (of_int n) = of_int n"
    using n by (intro float64_of_int) simp_all
  have x0: "(0::rat) \<le> of_int n / 3600000000000" using n(1) by simp
  have "(of_int n :: rat) \<le> of_int 3600000000000"
    using n(2) by (simp only: of_int_le_iff)
  then have x1: "(of_int n :: rat) / 3600000000000 \<le> of_int 1" by simp
  have q0: "0 \<le> q" unfolding q_def using x0 by (rule float64_nonneg)
  have q1: "q \<le> of_int 1" unfolding q_def using x0 x1 by (rule float64_le_int) simp
  have H: "Hours d = float64 (of_int h + q)"
    using assms(1)
    by (simp add: Hours_def Hour_def Minute_def Second_def sdiv_nonneg smod_nonneg Let_def
          h_def [symmetric] n_def [symmetric] fh fn q_def)
  have s0: "(of_int h :: rat) \<le> of_int h + q" using q0 by simp
  have s1: "of_int h + q \<le> of_int (h + 1)" using q1 by simp
  have s00: "0 \<le> of_int h + q" using h0 q0 by simp
  have "of_int h \<le> float64 (of_int h + q)"
    using h0 h53 s0 by (intro float64_ge_int) simp_all
  then show "of_int (d div Hour) \<le> Hours d"
    by (simp add: H h_def Hour_def Minute_def Second_def)
  have "float64 (of_int h + q) \<le> of_int (h + 1)"
    using s00 s1 h53 by (rule float64_le_int)
  then show "Hours d \<le> of_int (d div Hour + 1)"
    by (simp add: H h_def Hour_def Minute_def Second_def)
qed

lemma Days_whole:
  assumes "24 * Hour \<le> d" "d \<le> maxDuration"
  shows "to_int (float64 (Hours d / 24)) = d div (24 * Hour) \<or>
         to_int (float64 (Hours d / 24)) = d div (24 * Hour) + 1"
proof -
  define h where "h = d div Hour"
  define D where "D = h div 24"
  define f where "f = float64 (Hours d / 24)"
  have d0: "0 \<le> d" using assms(1) by (simp add: Hour_def Minute_def Second_def)
  have h0: "0 \<le> h" using d0 by (simp add: h_def Hour_def Minute_def Second_def pos_imp_zdiv_nonneg_iff)
  have dm: "d \<le> 9223372036854775807" using assms(2) by (simp add: maxDuration_def)
  have hh: "h = d div 3600000000000" by (simp add: h_def Hour_def Minute_def Second_def)
  have "h \<le> 2562047" using dm unfolding hh by linarith
  then have "D + 1 < 9007199254740992" unfolding D_def by linarith
  then have D53: "D + 1 < 2 ^ 53" by simp
  have D0: "0 \<le> D" using h0 by (simp add: D_def pos_imp_zdiv_nonneg_iff)
  have hD: "24 * D \<le> h" "h + 1 \<le> 24 * (D + 1)" unfolding D_def by presburger+
  from hD(1) have "(of_int (24 * D) :: rat) \<le> of_int h" by (simp only: of_int_le_iff)
  also have "\<dots> \<le> Hours d" unfolding h_def using d0 assms(2) by (rule Hours_between(1))
  finally have lo: "(of_int D :: rat) \<le> Hours d / 24" by simp
  have "Hours d \<le> of_int (h + 1)" unfolding h_def using d0 assms(2) by (rule Hours_between(2))
  also from hD(2) have "(of_int (h + 1) :: rat) \<le> of_int (24 * (D + 1))"
    by (simp only: of_int_le_iff)
  finally have hi: "Hours d / 24 \<le> of_int (D + 1)" by simp
  have "(0::rat) \<le> of_int D" using D0 by simp
  with lo have x0: "0 \<le> Hours d / 24" by simp
  have f1: "of_int D \<le> f"
    unfolding f_def using D0 D53 lo by (intro float64_ge_int) simp_all
  have f2: "f \<le> of_int (D + 1)"
    unfolding f_def using x0 hi D53 by (rule float64_le_int)
  have f0: "0 \<le> f" unfolding f_def using x0 by (rule float64_nonneg)
  have "\<lfloor>f\<rfloor> = D \<or> \<lfloor>f\<rfloor> = D + 1"
  proof (cases "f = of_int (D + 1)")
    case True
    then show ?thesis by simp
  next
    case False
    with f2 have "f < of_int D + 1" by simp
    with f1 have "\<lfloor>f\<rfloor> = D" by linarith
    then show ?thesis by simp
  qed
  moreover have "D = d div (24 * Hour)"
    by (simp add: D_def h_def Hour_def Minute_def Second_def zdiv_zmult2_eq)
  ultimately show ?thesis using f0 by (simp add: to_int_def f_def)
qed

lemma Sub_bounds: "minDuration \<le> Sub t u \<and> Sub t u \<le> maxDuration"
  by (simp add: Sub_def Let_def minDuration_def maxDuration_def)

lemma inferSchedule_no_pattern:
  assumes "\<not> ((Contains (JobName job) ''every'' \<or> Contains (JobName job) ''interval'') \<and>
            (Contains (JobName job) ''10s'' \<or> Contains (JobName job) ''10-s'' \<or>
             Contains (JobName job) ''5s'' \<or> Contains (JobName job) ''minute''))"
    and "\<forall>p \<in> set [''cron'', ''daily'', ''weekly'', ''random'', ''singleton'', ''limited'',
                      ''parameter'', ''context'', ''one-time'', ''onetime''].
           \<not> Contains (JobName job) p"
  shows "inferSchedule job nextRuns =
    (case nextRuns of
       t0 # t1 # rest \<Rightarrow>
         (if Sub t1 t0 < Minute then
            (''Every '' @ fmt_d (to_int (Seconds (Sub t1 t0))) @ '' seconds'',
             ''Duration: '' @ fmt_d (to_int (Seconds (Sub t1 t0))) @ ''s'')
          else if Sub t1 t0 < Hour then
            (''Every '' @ fmt_d (to_int (Minutes (Sub t1 t0))) @ '' minutes'',
             ''Duration: '' @ fmt_d (to_int (Minutes (Sub t1 t0))) @ ''m'')
          else if Sub t1 t0 < 24 * Hour then
            (''Every '' @ fmt_d (to_int (Hours (Sub t1 t0))) @ '' hours'',
             ''Duration: '' @ fmt_d (to_int (Hours (Sub t1 t0))) @ ''h'')
          else
            (''Every '' @ fmt_d (to_int (float64 (Hours (Sub t1 t0) / 24))) @ '' days'',
             ''Duration: '' @ fmt_d (to_int (float64 (Hours (Sub t1 t0) / 24))) @ ''d''))
     | _ \<Rightarrow> (''Scheduled'', ''Custom schedule''))"
proof -
  let ?n = "JobName job"
  from assms(1) have a:
    "((0 < length ?n \<and> (Contains ?n ''every'' \<or> Contains ?n ''interval'')) \<and>
        (Contains ?n ''10s'' \<or> Contains ?n ''10-s'')) = False"
    "((0 < length ?n \<and> (Contains ?n ''every'' \<or> Contains ?n ''interval'')) \<and>
        Contains ?n ''5s'') = False"
    "((0 < length ?n \<and> (Contains ?n ''every'' \<or> Contains ?n ''interval'')) \<and>
        Contains ?n ''minute'') = False"
    by blast+
  from assms(2) have b:
    "(0 < length ?n \<and> Contains ?n ''cron'') = False"
    "(0 < length ?n \<and> Contains ?n ''daily'') = False"
    "(0 < length ?n \<and> Contains ?n ''weekly'') = False"
    "(0 < length ?n \<and> Contains ?n ''random'') = False"
    "(0 < length ?n \<and> Contains ?n ''singleton'') = False"
    "(0 < length ?n \<and> Contains ?n ''limited'') = False"
    "(0 < length ?n \<and> Contains ?n ''parameter'') = False"
    "(0 < length ?n \<and> Contains ?n ''context'') = False"
    "(0 < length ?n \<and> (Contains ?n ''one-time'' \<or> Contains ?n ''onetime'')) = False"
    by simp_all
  show ?thesis
    unfolding inferSchedule_def Let_def a b if_False
    by (simp split: list.splits)
qed

text \<open>
  Claim C2: for a job whose name matches no pattern, fewer than two future run timestamps
  give \<open>Scheduled\<close> / \<open>Custom schedule\<close>, and two or more give \<open>Every N unit\<close> /
  \<open>Duration: N\<close> with the unit's letter, where the difference \<open>d\<close> of the first two
  selects the unit: seconds below a minute, minutes below an hour, hours below 24 hours,
  days from there on. \<open>N\<close> is the \<open>float64\<close> count of units cut to an integer; when \<open>d\<close> is
  not negative this is the number of whole seconds, minutes or hours in \<open>d\<close>, and for days
  the number of whole days or, by rounding, one more. Two timestamps 10 seconds apart
  give \<open>Every 10 seconds\<close> / \<open>Duration: 10s\<close>.
\<close>

theorem interval_inference:
  assumes "\<not> ((Contains (JobName job) ''every'' \<or> Contains (JobName job) ''interval'') \<and>
            (Contains (JobName job) ''10s'' \<or> Contains (JobName job) ''10-s'' \<or>
             Contains (JobName job) ''5s'' \<or> Contains (JobName job) ''minute''))"
    and "\<forall>p \<in> set [''cron'', ''daily'', ''weekly'', ''random'', ''singleton'', ''limited'',
                      ''parameter'', ''context'', ''one-time'', ''onetime''].
           \<not> Contains (JobName job) p"
  shows
  "(length nextRuns < 2 \<longrightarrow> inferSchedule job nextRuns = (''Scheduled'', ''Custom schedule'')) \<and>
   (\<forall>t0 t1 rest d. nextRuns = t0 # t1 # rest \<and> d = Sub t1 t0 \<longrightarrow>
      (d < Minute \<longrightarrow>
         inferSchedule job nextRuns =
           (''Every '' @ fmt_d (to_int (Seconds d)) @ '' seconds'',
            ''Duration: '' @ fmt_d (to_int (Seconds d)) @ ''s'')) \<and>
      (Minute \<le> d \<and> d < Hour \<longrightarrow>
         inferSchedule job nextRuns =
           (''Every '' @ fmt_d (to_int (Minutes d)) @ '' minutes'',
            ''Duration: '' @ fmt_d (to_int (Minutes d)) @ ''m'')) \<and>
      (Hour \<le> d \<and> d < 24 * Hour \<longrightarrow>
         inferSchedule job nextRuns =
           (''Every '' @ fmt_d (to_int (Hours d)) @ '' hours'',
            ''Duration: '' @ fmt_d (to_int (Hours d)) @ ''h'')) \<and>
      (24 * Hour \<le> d \<longrightarrow>
         inferSchedule job nextRuns =
           (''Every '' @ fmt_d (to_int (float64 (Hours d / 24))) @ '' days'',
            ''Duration: '' @ fmt_d (to_int (float64 (Hours d / 24))) @ ''d'')) \<and>
      (0 \<le> d \<and> d < Minute \<longrightarrow> to_int (Seconds d) = d div Second) \<and>
      (Minute \<le> d \<and> d < Hour \<longrightarrow> to_int (Minutes d) = d div Minute) \<and>
      (Hour \<le> d \<and> d < 24 * Hour \<longrightarrow> to_int (Hours d) = d div Hour) \<and>
      (24 * Hour \<le> d \<longrightarrow>
         to_int (float64 (Hours d / 24)) = d div (24 * Hour) \<or>
         to_int (float64 (Hours d / 24)) = d div (24 * Hour) + 1)) \<and>
   (\<forall>t0 rest. inferSchedule job (t0 # (t0 + 10 * Second) # rest)
      = (''Every 10 seconds'', ''Duration: 10s''))"
proof -
  note shape = inferSchedule_no_pattern [OF assms]
  have order: "Minute < Hour" "Hour < 24 * Hour" "0 < Minute"
    by (simp_all add: Minute_def Hour_def Second_def)
  have few: "length nextRuns < 2 \<longrightarrow> inferSchedule job nextRuns = (''Scheduled'', ''Custom schedule'')"
    by (cases nextRuns; cases "tl nextRuns") (simp_all add: shape)
  have many: "\<forall>t0 t1 rest d. nextRuns = t0 # t1 # rest \<and> d = Sub t1 t0 \<longrightarrow>
      (d < Minute \<longrightarrow>
         inferSchedule job nextRuns =
           (''Every '' @ fmt_d (to_int (Seconds d)) @ '' seconds'',
            ''Duration: '' @ fmt_d (to_int (Seconds d)) @ ''s'')) \<and>
      (Minute \<le> d \<and> d < Hour \<longrightarrow>
         inferSchedule job nextRuns =
           (''Every '' @ fmt_d (to_int (Minutes d)) @ '' minutes'',
            ''Duration: '' @ fmt_d (to_int (Minutes d)) @ ''m'')) \<and>
      (Hour \<le> d \<and> d < 24 * Hour \<longrightarrow>
         inferSchedule job nextRuns =
           (''Every '' @ fmt_d (to_int (Hours d)) @ '' hours'',
            ''Duration: '' @ fmt_d (to_int (Hours d)) @ ''h'')) \<and>
      (24 * Hour \<le> d \<longrightarrow>
         inferSchedule job nextRuns =
           (''Every '' @ fmt_d (to_int (float64 (Hours d / 24))) @ '' days'',
            ''Duration: '' @ fmt_d (to_int (float64 (Hours d / 24))) @ ''d'')) \<and>
      (0 \<le> d \<and> d < Minute \<longrightarrow> to_int (Seconds d) = d div Second) \<and>
      (Minute \<le> d \<and> d < Hour \<longrightarrow> to_int (Minutes d) = d div Minute) \<and>
      (Hour \<le> d \<and> d < 24 * Hour \<longrightarrow> to_int (Hours d) = d div Hour) \<and>
      (24 * Hour \<le> d \<longrightarrow>
         to_int (float64 (Hours d / 24)) = d div (24 * Hour) \<or>
         to_int (float64 (Hours d / 24)) = d div (24 * Hour) + 1)"
  proof (intro allI impI, elim conjE)
    fix t0 t1 rest d
    assume n: "nextRuns = t0 # t1 # rest" and d: "d = Sub t1 t0"
    have dmax: "d \<le> maxDuration" using Sub_bounds [of t1 t0] by (simp add: d)
    have s: "d < Minute \<longrightarrow>
         inferSchedule job nextRuns =
           (''Every '' @ fmt_d (to_int (Seconds d)) @ '' seconds'',
            ''Duration: '' @ fmt_d (to_int (Seconds d)) @ ''s'')"
      by (simp add: shape n d)
    have m: "Minute \<le> d \<and> d < Hour \<longrightarrow>
         inferSchedule job nextRuns =
           (''Every '' @ fmt_d (to_int (Minutes d)) @ '' minutes'',
            ''Duration: '' @ fmt_d (to_int (Minutes d)) @ ''m'')"
      by (simp add: shape n d)
    have h: "Hour \<le> d \<and> d < 24 * Hour \<longrightarrow>
         inferSchedule job nextRuns =
           (''Every '' @ fmt_d (to_int (Hours d)) @ '' hours'',
            ''Duration: '' @ fmt_d (to_int (Hours d)) @ ''h'')"
      using order by (simp add: shape n d)
    have dd: "24 * Hour \<le> d \<longrightarrow>
         inferSchedule job nextRuns =
           (''Every '' @ fmt_d (to_int (float64 (Hours d / 24))) @ '' days'',
            ''Duration: '' @ fmt_d (to_int (float64 (Hours d / 24))) @ ''d'')"
      using order by (simp add: shape n d)
    have ns: "0 \<le> d \<and> d < Minute \<longrightarrow> to_int (Seconds d) = d div Second"
      by (simp add: Seconds_whole)
    have nm: "Minute \<le> d \<and> d < Hour \<longrightarrow> to_int (Minutes d) = d div Minute"
      using order by (simp add: Minutes_whole)
    have nh: "Hour \<le> d \<and> d < 24 * Hour \<longrightarrow> to_int (Hours d) = d div Hour"
      using order by (simp add: Hours_whole Hour_def Minute_def Second_def)
    have nd: "24 * Hour \<le> d \<longrightarrow>
         to_int (float64 (Hours d / 24)) = d div (24 * Hour) \<or>
         to_int (float64 (Hours d / 24)) = d div (24 * Hour) + 1"
      using dmax Days_whole [of d] by blast
    from s m h dd ns nm nh nd
    show "(d < Minute \<longrightarrow>
         inferSchedule job nextRuns =
           (''Every '' @ fmt_d (to_int (Seconds d)) @ '' seconds'',
            ''Duration: '' @ fmt_d (to_int (Seconds d)) @ ''s'')) \<and>
      (Minute \<le> d \<and> d < Hour \<longrightarrow>
         inferSchedule job nextRuns =
           (''Every '' @ fmt_d (to_int (Minutes d)) @ '' minutes'',
            ''Duration: '' @ fmt_d (to_int (Minutes d)) @ ''m'')) \<and>
      (Hour \<le> d \<and> d < 24 * Hour \<longrightarrow>
         inferSchedule job nextRuns =
           (''Every '' @ fmt_d (to_int (Hours d)) @ '' hours'',
            ''Duration: '' @ fmt_d (to_int (Hours d)) @ ''h'')) \<and>
      (24 * Hour \<le> d \<longrightarrow>
         inferSchedule job nextRuns =
           (''Every '' @ fmt_d (to_int (float64 (Hours d / 24))) @ '' days'',
            ''Duration: '' @ fmt_d (to_int (float64 (Hours d / 24))) @ ''d'')) \<and>
      (0 \<le> d \<and> d < Minute \<longrightarrow> to_int (Seconds d) = d div Second) \<and>
      (Minute \<le> d \<and> d < Hour \<longrightarrow> to_int (Minutes d) = d div Minute) \<and>
      (Hour \<le> d \<and> d < 24 * Hour \<longrightarrow> to_int (Hours d) = d div Hour) \<and>
      (24 * Hour \<le> d \<longrightarrow>
         to_int (float64 (Hours d / 24)) = d div (24 * Hour) \<or>
         to_int (float64 (Hours d / 24)) = d div (24 * Hour) + 1)"
      by (intro conjI)
  qed
  have ten: "\<forall>t0 rest. inferSchedule job (t0 # (t0 + 10 * Second) # rest)
      = (''Every 10 seconds'', ''Duration: 10s'')"
  proof (intro allI)
    fix t0 :: Time and rest :: "Time list"
    have d: "Sub (t0 + 10 * Second) t0 = 10 * Second"
      by (simp add: Sub_def Let_def Second_def minDuration_def maxDuration_def)
    have "to_int (Seconds (10 * Second)) = 10 * Second div Second"
      by (intro Seconds_whole) (simp_all add: Second_def Minute_def)
    then have n: "to_int (Seconds (10 * Second)) = 10" by (simp add: Second_def)
    have f: "fmt_d 10 = ''10''" by (simp add: fmt_d_def fmt_nat.simps digit_def)
    show "inferSchedule job (t0 # (t0 + 10 * Second) # rest)
      = (''Every 10 seconds'', ''Duration: 10s'')"
      by (simp add: shape d n f) (simp add: Minute_def Second_def)
  qed
  from few many ten show ?thesis by (intro conjI)
qed


theorem interval_inference_witness:
  "inferSchedule (namedJob ''heartbeat'') [] = (''Scheduled'', ''Custom schedule'') \<and>
   inferSchedule (namedJob ''heartbeat'') [63897408000000000000]
     = (''Scheduled'', ''Custom schedule'') \<and>
   inferSchedule (namedJob ''heartbeat'') [63897408000000000000, 63897408010000000000]
     = (''Every 10 seconds'', ''Duration: 10s'') \<and>
   inferSchedule (namedJob ''heartbeat'') [63897408000000000000, 63897408300000000000]
     = (''Every 5 minutes'', ''Duration: 5m'') \<and>
   inferSchedule (namedJob ''heartbeat'') [63897408000000000000, 63897413400000000000]
     = (''Every 1 hours'', ''Duration: 1h'') \<and>
   inferSchedule (namedJob ''heartbeat'') [63897408000000000000, 63897580800000000000]
     = (''Every 2 days'', ''Duration: 2d'') \<and>
   14774399999999999 div (24 * Hour) = 170 \<and>
   inferSchedule (namedJob ''heartbeat'') [63897408000000000000, 63912182399999999999]
     = (''Every 171 days'', ''Duration: 171d'')"
proof -
  let ?job = "namedJob ''heartbeat''"
  have n: "JobName ?job = ''heartbeat''" by (simp add: namedJob_def)
  have a: "\<not> ((Contains (JobName ?job) ''every'' \<or> Contains (JobName ?job) ''interval'') \<and>
            (Contains (JobName ?job) ''10s'' \<or> Contains (JobName ?job) ''10-s'' \<or>
             Contains (JobName ?job) ''5s'' \<or> Contains (JobName ?job) ''minute''))"
    unfolding n by simp
  have b: "\<forall>p \<in> set [''cron'', ''daily'', ''weekly'', ''random'', ''singleton'', ''limited'',
                      ''parameter'', ''context'', ''one-time'', ''onetime''].
           \<not> Contains (JobName ?job) p"
    unfolding n by simp
  note t = interval_inference [OF a b]
  have f: "fmt_d 1 = ''1''" "fmt_d 2 = ''2''" "fmt_d 5 = ''5''" "fmt_d 171 = ''171''"
    by (simp_all add: fmt_d_def fmt_nat.simps digit_def)
  have u: "Second = 1000000000" "Minute = 60000000000" "Hour = 3600000000000"
    by (simp_all add: Second_def Minute_def Hour_def)
  have sub: "Sub 63897408010000000000 63897408000000000000 = 10000000000"
    "Sub 63897408300000000000 63897408000000000000 = 300000000000"
    "Sub 63897413400000000000 63897408000000000000 = 5400000000000"
    "Sub 63897580800000000000 63897408000000000000 = 172800000000000"
    "Sub 63912182399999999999 63897408000000000000 = 14774399999999999"
    by (simp_all add: Sub_def Let_def minDuration_def maxDuration_def)
  have days: "to_int (float64 (Hours 172800000000000 / 24)) = 2"
    "to_int (float64 (Hours 14774399999999999 / 24)) = 171"
    by code_simp+
  have whole: "14774399999999999 div (24 * Hour) = 170" by (simp add: u)
  from t [of "[]"] have c0: "inferSchedule ?job [] = (''Scheduled'', ''Custom schedule'')"
    by simp
  from t [of "[63897408000000000000]"]
  have c1: "inferSchedule ?job [63897408000000000000] = (''Scheduled'', ''Custom schedule'')"
    by simp
  from t [of "[]", THEN conjunct2, THEN conjunct2, rule_format, of 63897408000000000000 "[]"]
  have c2: "inferSchedule ?job [63897408000000000000, 63897408010000000000]
     = (''Every 10 seconds'', ''Duration: 10s'')"
    by (simp add: u)
  from t [of "[63897408000000000000, 63897408300000000000]", THEN conjunct2, THEN conjunct1,
          rule_format, of 63897408000000000000 63897408300000000000 "[]" 300000000000]
  have c3: "inferSchedule ?job [63897408000000000000, 63897408300000000000]
     = (''Every 5 minutes'', ''Duration: 5m'')"
    by (simp add: u sub f)
  from t [of "[63897408000000000000, 63897413400000000000]", THEN conjunct2, THEN conjunct1,
          rule_format, of 63897408000000000000 63897413400000000000 "[]" 5400000000000]
  have c4: "inferSchedule ?job [63897408000000000000, 63897413400000000000]
     = (''Every 1 hours'', ''Duration: 1h'')"
    by (simp add: u sub f)
  from t [of "[63897408000000000000, 63897580800000000000]", THEN conjunct2, THEN conjunct1,
          rule_format, of 63897408000000000000 63897580800000000000 "[]" 172800000000000]
  have c5: "inferSchedule ?job [63897408000000000000, 63897580800000000000]
     = (''Every 2 days'', ''Duration: 2d'')"
    by (simp add: u sub f days)
  from t [of "[63897408000000000000, 63912182399999999999]", THEN conjunct2, THEN conjunct1,
          rule_format, of 63897408000000000000 63912182399999999999 "[]" 14774399999999999]
  have c6: "inferSchedule ?job [63897408000000000000, 63912182399999999999]
     = (''Every 171 days'', ''Duration: 171d'')"
    by (simp add: u sub f days)
  from c0 c1 c2 c3 c4 c5 whole c6 show ?thesis by (intro conjI)
qed

end
